theory Spec2Isabelle
  imports Complex_Main "HOL-Library.Char_ord" "HOL-Library.List_Lexorder"
begin

section \<open>Shared conventions\<close>

text \<open>
  Python exceptions are values.  A feature record (a dict or a pandas Series of numeric
  fields) is a partial map from field names to integers; \<open>row.get(field, 0)\<close> is
  \<open>row_get\<close>.  The floats of the hybrid scorer are IEEE 754 doubles (section Python
  floats).  In the simulator, progress and efficiency are reals: rounding is outside that
  part of the model.
\<close>

datatype py_error = KeyError string | ValueError string | ZeroDivisionError | OverflowError string

type_synonym feature_row = "string \<rightharpoonup> int"

definition row_get :: "feature_row \<Rightarrow> string \<Rightarrow> int \<Rightarrow> int" where
  "row_get row k dflt = (case row k of Some v \<Rightarrow> v | None \<Rightarrow> dflt)"

section \<open>Rule engine: models/rules.py\<close>

record rule =
  field :: string
  threshold :: int
  score :: int
  severity :: string
  reason :: string
  rationale :: string

record reason_entry =
  text_of :: string
  severity_of :: string

definition RULES :: "rule list" where
  "RULES =
    [\<lparr>field = ''total_blocked_events'', threshold = 3, score = 25, severity = ''critical'',
      reason = ''Frequent task blocking (3+ events)'',
      rationale = ''Recurring blocks indicate systemic issues beyond random disruptions''\<rparr>,
     \<lparr>field = ''dependencies'', threshold = 2, score = 15, severity = ''warning'',
      reason = ''Heavy dependency constraints (2+ deps)'',
      rationale = ''High coupling increases coordination overhead and failure propagation''\<rparr>,
     \<lparr>field = ''no_resource_available'', threshold = 1, score = 20, severity = ''critical'',
      reason = ''Insufficient resource availability'',
      rationale = ''Resource bottlenecks are a primary cause of project delays''\<rparr>,
     \<lparr>field = ''rework_count'', threshold = 2, score = 15, severity = ''warning'',
      reason = ''Repeated rework events (2+ occurrences)'',
      rationale = ''Rework indicates quality issues or requirement instability''\<rparr>,
     \<lparr>field = ''max_progress_gap'', threshold = 4, score = 15, severity = ''warning'',
      reason = ''Long progress stagnation (4+ days)'',
      rationale = ''Large gaps often hide problems or indicate blocked work''\<rparr>]"

text \<open>The \<open>for rule in RULES\<close> loop, with the two accumulators \<open>score\<close> and \<open>reasons\<close>.\<close>

fun rules_loop :: "rule list \<Rightarrow> feature_row \<Rightarrow> int \<times> reason_entry list \<Rightarrow> int \<times> reason_entry list" where
  "rules_loop [] row acc = acc"
| "rules_loop (r # rest) row (sc, reasons) =
     (let field_value = row_get row (field r) 0 in
      if field_value \<ge> threshold r
      then rules_loop rest row
             (sc + score r, reasons @ [\<lparr>text_of = reason r, severity_of = severity r\<rparr>])
      else rules_loop rest row (sc, reasons))"

definition rule_based_risk :: "feature_row \<Rightarrow> int \<times> reason_entry list" where
  "rule_based_risk row = (case rules_loop RULES row (0, []) of (sc, reasons) \<Rightarrow> (min sc 100, reasons))"

text \<open>The rules that fire on a record, in declaration order (the wording of the specification).\<close>

definition fired_rules :: "feature_row \<Rightarrow> rule list" where
  "fired_rules row = filter (\<lambda>r. threshold r \<le> row_get row (field r) 0) RULES"

section \<open>What-if engine: decision_support/what_if.py\<close>

record scenario =
  description :: string
  causal_mechanism :: string
  effects :: "(string \<times> int) list"

definition SCENARIOS :: "(string \<times> scenario) list" where
  "SCENARIOS =
    [(''add_resource'',
      \<lparr>description = ''Add one resource to the project'',
       causal_mechanism = ''Reduces resource bottlenecks and blocking'',
       effects = [(''no_resource_available'', -1), (''total_blocked_events'', -1)]\<rparr>),
     (''reduce_dependencies'',
      \<lparr>description = ''Reduce task coupling through refactoring'',
       causal_mechanism = ''Decreases coordination overhead and failure propagation'',
       effects = [(''dependencies'', -2), (''total_blocked_events'', -1)]\<rparr>),
     (''improve_process'',
      \<lparr>description = ''Implement quality improvements and better monitoring'',
       causal_mechanism = ''Reduces rework cycles and progress stagnation'',
       effects = [(''rework_count'', -1), (''max_progress_gap'', -2)]\<rparr>)]"

text \<open>
  The loop \<open>for feature, delta in effects.items()\<close>: a feature that is not in the
  record's index is skipped, a present one is overwritten with \<open>max(0, current + delta)\<close>.
\<close>

fun apply_effects :: "(string \<times> int) list \<Rightarrow> feature_row \<Rightarrow> feature_row" where
  "apply_effects [] simulated = simulated"
| "apply_effects ((feature, delta) # rest) simulated =
     (case simulated feature of
        Some current \<Rightarrow> apply_effects rest (simulated(feature \<mapsto> max 0 (current + delta)))
      | None \<Rightarrow> apply_effects rest simulated)"

definition simulate_what_if :: "feature_row \<Rightarrow> string \<Rightarrow> py_error + feature_row" where
  "simulate_what_if row sc =
     (case map_of SCENARIOS sc of
        None \<Rightarrow> Inl (ValueError (''Unknown scenario: '' @ sc))
      | Some s \<Rightarrow> Inr (apply_effects (effects s) row))"

section \<open>Python floats\<close>

text \<open>
  A Python float is an IEEE 754 binary64 number: a finite value, an infinity or NaN.  A
  finite float is represented by the real number it denotes; the two zeros are identified
  (no operation used below tells them apart).  An arithmetic operation computes the exact
  result and rounds it to the nearest float, ties to even; a result that rounds beyond the
  largest float is an infinity, and no float operation raises.
\<close>

datatype pyfloat = Fin real | Infty bool | NaN

text \<open>\<open>n.bit_length()\<close> of a natural number.\<close>

fun bit_length :: "nat \<Rightarrow> nat" where
  "bit_length n = (if n = 0 then 0 else Suc (bit_length (n div 2)))"

declare bit_length.simps [simp del]

text \<open>The exponent \<open>e\<close> of a non-zero real: \<open>2 ^ e \<le> \<bar>x\<bar> < 2 ^ (e + 1)\<close>.\<close>

definition binary_exponent :: "real \<Rightarrow> int" where
  "binary_exponent x =
     (if 1 \<le> \<bar>x\<bar> then int (bit_length (nat \<lfloor>\<bar>x\<bar>\<rfloor>)) - 1
      else - int (bit_length (nat (\<lceil>1 / \<bar>x\<bar>\<rceil> - 1))))"

definition pow2 :: "int \<Rightarrow> real" where
  "pow2 k = (if 0 \<le> k then 2 ^ nat k else 1 / 2 ^ nat (- k))"

text \<open>Rounding half to even, to an integer: Python's \<open>round(x)\<close>.\<close>

definition py_round :: "real \<Rightarrow> int" where
  "py_round x =
     (let f = \<lfloor>x\<rfloor>; d = x - of_int f in
      if d < 1 / 2 then f else if 1 / 2 < d then f + 1 else if even f then f else f + 1)"

text \<open>
  The nearest number with a significand of 53 bits, ties to even; below \<open>2 ^ - 1022\<close> the
  spacing is that of the subnormal numbers.
\<close>

definition round_to_double :: "real \<Rightarrow> real" where
  "round_to_double x =
     (if x = 0 then 0
      else let ulp = pow2 (max (binary_exponent x) (- 1022) - 52)
           in of_int (py_round (x / ulp)) * ulp)"

text \<open>
  The float of an exact result.  A decimal literal such as \<open>0.6\<close> denotes \<open>to_float (6 / 10)\<close>.
\<close>

definition to_float :: "real \<Rightarrow> pyfloat" where
  "to_float x =
     (let r = round_to_double x in
      if pow2 1024 \<le> r then Infty True else if r \<le> - pow2 1024 then Infty False else Fin r)"

fun fmul :: "pyfloat \<Rightarrow> pyfloat \<Rightarrow> pyfloat" where
  "fmul (Fin a) (Fin b) = to_float (a * b)"
| "fmul (Fin a) (Infty q) = (if a = 0 then NaN else Infty ((0 < a) = q))"
| "fmul (Infty p) (Fin b) = (if b = 0 then NaN else Infty ((0 < b) = p))"
| "fmul (Infty p) (Infty q) = Infty (p = q)"
| "fmul NaN y = NaN"
| "fmul x NaN = NaN"

fun fadd :: "pyfloat \<Rightarrow> pyfloat \<Rightarrow> pyfloat" where
  "fadd (Fin a) (Fin b) = to_float (a + b)"
| "fadd (Fin a) (Infty q) = Infty q"
| "fadd (Infty p) (Fin b) = Infty p"
| "fadd (Infty p) (Infty q) = (if p = q then Infty p else NaN)"
| "fadd NaN y = NaN"
| "fadd x NaN = NaN"

text \<open>
  The conversion of the int operand of a mixed operation.  Python raises \<open>OverflowError\<close>
  for an int beyond the range of the floats; the int operands below are a rule score,
  which lies between 0 and 100, and the literal 100.
\<close>

definition float_of_int :: "int \<Rightarrow> pyfloat" where
  "float_of_int i = to_float (of_int i)"

text \<open>\<open>int(x)\<close> truncates towards zero and raises for an infinity and for NaN.\<close>

definition py_int :: "pyfloat \<Rightarrow> py_error + int" where
  "py_int x =
     (case x of
        Fin r \<Rightarrow> Inr (if 0 \<le> r then \<lfloor>r\<rfloor> else \<lceil>r\<rceil>)
      | Infty p \<Rightarrow> Inl (OverflowError ''cannot convert float infinity to integer'')
      | NaN \<Rightarrow> Inl (ValueError ''cannot convert float NaN to integer''))"

text \<open>
  \<open>n >= h\<close> for an int \<open>n\<close>: Python compares an int with a float (and with an int) by
  value, exactly; NaN compares false.
\<close>

definition int_ge :: "int \<Rightarrow> pyfloat \<Rightarrow> bool" where
  "int_ge n h = (case h of Fin r \<Rightarrow> r \<le> of_int n | Infty p \<Rightarrow> \<not> p | NaN \<Rightarrow> False)"

text \<open>
  \<open>round(x, 3)\<close>: the exact value is rounded to three decimals, ties to even, and the
  float nearest to that decimal is returned; an infinity and NaN are returned as they are.
\<close>

definition py_round3 :: "pyfloat \<Rightarrow> pyfloat" where
  "py_round3 x =
     (case x of Fin r \<Rightarrow> to_float (of_int (py_round (r * 1000)) / 1000) | Infty p \<Rightarrow> Infty p | NaN \<Rightarrow> NaN)"

section \<open>Hybrid scorer: models/hybrid_risk.py\<close>

definition DEFAULT_RULE_WEIGHT :: pyfloat where "DEFAULT_RULE_WEIGHT = to_float (6 / 10)"
definition DEFAULT_ML_WEIGHT :: pyfloat where "DEFAULT_ML_WEIGHT = to_float (4 / 10)"

text \<open>
  A threshold is an int (the defaults are) or a float.  It is only compared with the
  integer score, by value, so the int threshold \<open>t\<close> is represented by \<open>Fin t\<close>.
\<close>

definition DEFAULT_HIGH_THRESHOLD :: pyfloat where "DEFAULT_HIGH_THRESHOLD = Fin 70"
definition DEFAULT_MEDIUM_THRESHOLD :: pyfloat where "DEFAULT_MEDIUM_THRESHOLD = Fin 40"

text \<open>
  The configuration is a dict of dicts; an association list stands for each dict, and
  \<open>d.get(k, default)\<close> is \<open>dict_get\<close>.  The weights of a configuration are floats.
\<close>

type_synonym config = "(string \<times> (string \<times> pyfloat) list) list"

definition dict_get :: "('k \<times> 'v) list \<Rightarrow> 'k \<Rightarrow> 'v \<Rightarrow> 'v" where
  "dict_get d k dflt = (case map_of d k of Some v \<Rightarrow> v | None \<Rightarrow> dflt)"

record weights =
  rule_weight :: pyfloat
  ml_weight :: pyfloat

record risk =
  risk_score :: int
  risk_level :: string
  reasons :: "reason_entry list"
  ml_probability :: pyfloat
  rule_score :: int
  weights_used :: weights

text \<open>
  The first block of \<open>hybrid_risk_score\<close>: the weights and thresholds taken from the
  configuration (\<open>if config:\<close> is false for \<open>None\<close> and for the empty dict), as the tuple
  (rule_weight, ml_weight, high_threshold, medium_threshold).
\<close>

definition hybrid_settings :: "config option \<Rightarrow> pyfloat \<times> pyfloat \<times> pyfloat \<times> pyfloat" where
  "hybrid_settings cfg =
     (case cfg of
        None \<Rightarrow> (DEFAULT_RULE_WEIGHT, DEFAULT_ML_WEIGHT, DEFAULT_HIGH_THRESHOLD, DEFAULT_MEDIUM_THRESHOLD)
      | Some c \<Rightarrow>
          if c = [] then
            (DEFAULT_RULE_WEIGHT, DEFAULT_ML_WEIGHT, DEFAULT_HIGH_THRESHOLD, DEFAULT_MEDIUM_THRESHOLD)
          else
            (let ws = dict_get c ''risk_weights'' [];
                 ts = dict_get c ''risk_thresholds'' []
             in (dict_get ws ''rule_weight'' DEFAULT_RULE_WEIGHT,
                 dict_get ws ''ml_weight'' DEFAULT_ML_WEIGHT,
                 dict_get ts ''high'' DEFAULT_HIGH_THRESHOLD,
                 dict_get ts ''medium'' DEFAULT_MEDIUM_THRESHOLD)))"

text \<open>
  The float \<open>rule_weight * rule_score + ml_weight * (ml_probability * 100)\<close>, with the
  operations in the order Python evaluates them.
\<close>

definition weighted_sum :: "pyfloat \<Rightarrow> int \<Rightarrow> pyfloat \<Rightarrow> pyfloat \<Rightarrow> pyfloat" where
  "weighted_sum rw rs mw ml_prob =
     fadd (fmul rw (float_of_int rs)) (fmul mw (fmul ml_prob (float_of_int 100)))"

text \<open>\<open>hybrid_risk_score\<close>; it raises what \<open>int\<close> raises.\<close>

definition hybrid_risk_score :: "feature_row \<Rightarrow> pyfloat \<Rightarrow> config option \<Rightarrow> py_error + risk" where
  "hybrid_risk_score row ml_prob cfg =
     (case hybrid_settings cfg of (rw, mw, high_threshold, medium_threshold) \<Rightarrow>
      case rule_based_risk row of (rs, rsns) \<Rightarrow>
      case py_int (weighted_sum rw rs mw ml_prob) of
        Inl e \<Rightarrow> Inl e
      | Inr n \<Rightarrow>
          let final_score = max 0 (min 100 n);
              level = (if int_ge final_score high_threshold then ''High''
                       else if int_ge final_score medium_threshold then ''Medium''
                       else ''Low'')
          in Inr \<lparr>risk_score = final_score, risk_level = level, reasons = rsns,
                  ml_probability = py_round3 ml_prob, rule_score = rs,
                  weights_used = \<lparr>rule_weight = rw, ml_weight = mw\<rparr>\<rparr>)"

section \<open>Entities: project_simulator/entities.py\<close>

datatype task_status = NOT_STARTED | IN_PROGRESS | BLOCKED | COMPLETED

datatype event_type = EV_START | EV_PROGRESS | EV_BLOCKED | EV_REWORK | EV_COMPLETE

record task =
  task_id :: string
  planned_duration :: int
  complexity :: int
  priority :: string
  required_skill :: string
  dependencies :: "string list"
  actual_start :: "int option"
  actual_end :: "int option"
  progress :: real
  status :: task_status

record resource =
  resource_id :: string
  skill_type :: string
  efficiency :: real
  availability :: int
  assigned_task :: "string option"

record event_log =
  ev_day :: int
  ev_task_id :: string
  ev_type :: event_type
  ev_reason :: "string option"

text \<open>
  The constructor of \<open>EventLog\<close> with its \<open>__post_init__\<close> checks.  The event type is
  a closed datatype here, so the check of \<open>event_type\<close> cannot fail.
\<close>

definition EventLog :: "int \<Rightarrow> string \<Rightarrow> event_type \<Rightarrow> string option \<Rightarrow> py_error + event_log" where
  "EventLog d tid ty rsn =
     (if d < 0 then Inl (ValueError ''day must be non-negative'')
      else if tid = [] then Inl (ValueError ''task_id must be a non-empty string'')
      else Inr \<lparr>ev_day = d, ev_task_id = tid, ev_type = ty, ev_reason = rsn\<rparr>)"

section \<open>Random numbers: project_simulator/utils.py\<close>

text \<open>
  Python's \<open>random\<close> module is a parameter: a generator state \<open>'g\<close> with the seeding
  function, \<open>random()\<close> and the integer draw below a bound.  \<open>uniform\<close> and \<open>randint\<close>
  are derived from them as the standard library does.
\<close>

record 'g random_module =
  seed :: "int \<Rightarrow> 'g"
  random :: "'g \<Rightarrow> real \<times> 'g"
  randbelow :: "int \<Rightarrow> 'g \<Rightarrow> int \<times> 'g"

definition uniform :: "'g random_module \<Rightarrow> real \<Rightarrow> real \<Rightarrow> 'g \<Rightarrow> real \<times> 'g" where
  "uniform R a b g = (case random R g of (x, g') \<Rightarrow> (a + (b - a) * x, g'))"

definition randint :: "'g random_module \<Rightarrow> int \<Rightarrow> int \<Rightarrow> 'g \<Rightarrow> py_error + int \<times> 'g" where
  "randint R a b g =
     (if 0 < b + 1 - a then (case randbelow R (b + 1 - a) g of (n, g') \<Rightarrow> Inr (a + n, g'))
      else Inl (ValueError ''empty range for randrange()''))"

definition chance :: "'g random_module \<Rightarrow> real \<Rightarrow> 'g \<Rightarrow> bool \<times> 'g" where
  "chance R prob g = (case random R g of (x, g') \<Rightarrow> (x < prob, g'))"

definition random_delay :: "'g random_module \<Rightarrow> int \<Rightarrow> int \<Rightarrow> 'g \<Rightarrow> py_error + int \<times> 'g" where
  "random_delay R min_days max_days g = randint R min_days max_days g"

definition regress_progress :: "'g random_module \<Rightarrow> real \<Rightarrow> real \<Rightarrow> 'g \<Rightarrow> real \<times> 'g" where
  "regress_progress R current max_regression g =
     (case uniform R (5 / 100) max_regression g of
        (regression, g') \<Rightarrow> (max 0 (current - regression), g'))"

section \<open>Simulator: project_simulator/simulator.py\<close>

record noise_config =
  disruption_prob :: real
  rework_prob :: real
  external_block_prob :: real
  log_drop_prob :: real
  log_delay_range :: "int \<times> int"

definition default_noise :: noise_config where
  "default_noise = \<lparr>disruption_prob = 1 / 10, rework_prob = 5 / 100,
     external_block_prob = 5 / 100, log_drop_prob = 15 / 100, log_delay_range = (1, 3)\<rparr>"

text \<open>
  The fields of a simulator object.  \<open>tasks\<close> is the dict from task id to task in
  insertion order.  Resources are distinct objects.
\<close>

record sim_object =
  tasks :: "(string \<times> task) list"
  resources :: "resource list"
  logs :: "event_log list"
  delayed_logs :: "event_log list"
  day :: int
  noise :: noise_config

text \<open>
  The generator of the \<open>random\<close> module is not a field of the object: it is process-wide.
  The methods of the simulator act on the object together with the state \<open>rng\<close> that the
  generator of the process is in when the method runs, and they leave the generator in the
  state of their result.  The constructor seeds it; \<open>run\<close> does not.
\<close>

record 'g sim = sim_object +
  rng :: 'g

text \<open>\<open>d[k] = v\<close> on an insertion-ordered dict: an existing key keeps its position.\<close>

fun dict_insert :: "'k \<Rightarrow> 'v \<Rightarrow> ('k \<times> 'v) list \<Rightarrow> ('k \<times> 'v) list" where
  "dict_insert k v [] = [(k, v)]"
| "dict_insert k v ((k', v') # d) = (if k' = k then (k, v) # d else (k', v') # dict_insert k v d)"

definition tasks_dict :: "task list \<Rightarrow> (string \<times> task) list" where
  "tasks_dict ts = foldl (\<lambda>d t. dict_insert (task_id t) t d) [] ts"

text \<open>\<open>random.seed(seed)\<close> replaces the state of the generator, whatever it was.\<close>

definition random_seed :: "'g random_module \<Rightarrow> int \<Rightarrow> 'g \<Rightarrow> 'g" where
  "random_seed R sd g = seed R sd"

text \<open>
  \<open>ProjectSimulator.__init__\<close>; the last argument is the state of the generator before
  the constructor runs.  \<open>noise_config or {...}\<close> takes the defaults for \<open>None\<close>.
\<close>

definition ProjectSimulator ::
  "'g random_module \<Rightarrow> task list \<Rightarrow> resource list \<Rightarrow> int \<Rightarrow> noise_config option \<Rightarrow> 'g \<Rightarrow> 'g sim" where
  "ProjectSimulator R ts rs sd nc g =
     \<lparr>tasks = tasks_dict ts, resources = rs, logs = [], delayed_logs = [], day = 0,
      noise = (case nc of Some n \<Rightarrow> n | None \<Rightarrow> default_noise),
      rng = random_seed R sd g\<rparr>"

text \<open>
  A method either returns or raises; in both cases the object is left in some state.  An
  outcome is the exception raised, if any, and the state reached.
\<close>

type_synonym 'g outcome = "py_error option \<times> 'g sim"

definition then_do :: "'g outcome \<Rightarrow> ('g sim \<Rightarrow> 'g outcome) \<Rightarrow> 'g outcome" where
  "then_do r f = (case r of (None, s) \<Rightarrow> f s | (Some e, s) \<Rightarrow> (Some e, s))"

text \<open>
  \<open>all(self.tasks[dep].status == "completed" for dep in task.dependencies)\<close>: the
  generator stops at the first dependency that is not completed, and \<open>self.tasks[dep]\<close>
  raises \<open>KeyError\<close> for an unknown id.
\<close>

fun dependencies_completed :: "(string \<times> task) list \<Rightarrow> string list \<Rightarrow> py_error + bool" where
  "dependencies_completed tks [] = Inr True"
| "dependencies_completed tks (dep # rest) =
     (case map_of tks dep of
        None \<Rightarrow> Inl (KeyError dep)
      | Some t \<Rightarrow> if status t = COMPLETED then dependencies_completed tks rest else Inr False)"

text \<open>The index of the first resource without an assigned task.\<close>

fun find_resource_for_task :: "resource list \<Rightarrow> nat option" where
  "find_resource_for_task [] = None"
| "find_resource_for_task (r # rs) =
     (if assigned_task r = None then Some 0 else map_option Suc (find_resource_for_task rs))"

definition release_resources :: "resource list \<Rightarrow> resource list" where
  "release_resources rs = map (\<lambda>r. r\<lparr>assigned_task := None\<rparr>) rs"

definition log_event :: "'g random_module \<Rightarrow> event_log \<Rightarrow> 'g sim \<Rightarrow> 'g outcome" where
  "log_event R event s =
     (case chance R (log_drop_prob (noise s)) (rng s) of (dropped, g1) \<Rightarrow>
      if dropped then (None, s\<lparr>rng := g1\<rparr>)
      else
        (case chance R (3 / 10) g1 of (delayed, g2) \<Rightarrow>
         if delayed then
           (case random_delay R (fst (log_delay_range (noise s))) (snd (log_delay_range (noise s))) g2 of
              Inl e \<Rightarrow> (Some e, s\<lparr>rng := g2\<rparr>)
            | Inr (delay_days, g3) \<Rightarrow>
                (case EventLog (ev_day event + delay_days) (ev_task_id event) (ev_type event)
                        (ev_reason event) of
                   Inl e \<Rightarrow> (Some e, s\<lparr>rng := g3\<rparr>)
                 | Inr delayed_event \<Rightarrow>
                     (None, s\<lparr>delayed_logs := delayed_logs s @ [delayed_event], rng := g3\<rparr>)))
         else (None, s\<lparr>logs := logs s @ [event], rng := g2\<rparr>)))"

text \<open>\<open>self.log_event(EventLog(...))\<close>: the event is constructed, then logged.\<close>

definition emit ::
  "'g random_module \<Rightarrow> int \<Rightarrow> string \<Rightarrow> event_type \<Rightarrow> string option \<Rightarrow> 'g sim \<Rightarrow> 'g outcome" where
  "emit R d tid ty rsn s =
     (case EventLog d tid ty rsn of Inl e \<Rightarrow> (Some e, s) | Inr event \<Rightarrow> log_event R event s)"

text \<open>
  The task object under key \<open>k\<close> is mutated in place: \<open>put_task k t s\<close> stores \<open>t\<close> as
  its new state.  The body of the loop over the tasks is split at its \<open>continue\<close>
  statements into the functions below, from the last block to the first.
\<close>

definition put_task :: "string \<Rightarrow> task \<Rightarrow> 'g sim \<Rightarrow> 'g sim" where
  "put_task k t s = s\<lparr>tasks := map (\<lambda>(k', t'). if k' = k then (k', t) else (k', t')) (tasks s)\<rparr>"

definition completion :: "'g random_module \<Rightarrow> string \<Rightarrow> task \<Rightarrow> 'g sim \<Rightarrow> 'g outcome" where
  "completion R k t s =
     (if 1 \<le> progress t then
        (let t1 = (if actual_start t = None then t\<lparr>actual_start := Some (day s)\<rparr> else t);
             t2 = t1\<lparr>status := COMPLETED, actual_end := Some (day s)\<rparr>
         in emit R (day s) (task_id t2) EV_COMPLETE None (put_task k t2 s))
      else (None, s))"

definition rework_step :: "'g random_module \<Rightarrow> string \<Rightarrow> task \<Rightarrow> 'g sim \<Rightarrow> 'g outcome" where
  "rework_step R k t s =
     (case chance R (rework_prob (noise s)) (rng s) of (rw, g1) \<Rightarrow>
      if rw then
        (case regress_progress R (progress t) (2 / 10) g1 of (p, g2) \<Rightarrow>
         let t1 = t\<lparr>progress := p\<rparr>
         in then_do (emit R (day s) (task_id t1) EV_REWORK (Some ''rework'')
                       (put_task k t1 (s\<lparr>rng := g2\<rparr>)))
                    (completion R k t1))
      else completion R k t (s\<lparr>rng := g1\<rparr>))"

definition progress_step ::
  "'g random_module \<Rightarrow> string \<Rightarrow> task \<Rightarrow> resource \<Rightarrow> real \<Rightarrow> string option \<Rightarrow> 'g sim \<Rightarrow> 'g outcome" where
  "progress_step R k t res skill_penalty rsn s =
     (case uniform R (5 / 100) (15 / 100) (rng s) of (base_progress, g1) \<Rightarrow>
      if complexity t = 0 then (Some ZeroDivisionError, s\<lparr>rng := g1\<rparr>)
      else
        (let increment = base_progress * efficiency res * skill_penalty / of_int (complexity t);
             t1 = t\<lparr>progress := progress t + increment\<rparr>
         in then_do (emit R (day s) (task_id t1) EV_PROGRESS rsn (put_task k t1 (s\<lparr>rng := g1\<rparr>)))
                    (rework_step R k t1)))"

definition resource_allocation :: "'g random_module \<Rightarrow> string \<Rightarrow> task \<Rightarrow> 'g sim \<Rightarrow> 'g outcome" where
  "resource_allocation R k t s =
     (case find_resource_for_task (resources s) of
        None \<Rightarrow>
          emit R (day s) (task_id t) EV_BLOCKED (Some ''no_resource_available'')
            (put_task k (t\<lparr>status := BLOCKED\<rparr>) s)
      | Some i \<Rightarrow>
          (let res = (resources s ! i)\<lparr>assigned_task := Some (task_id t)\<rparr>;
               s1 = s\<lparr>resources := (resources s)[i := res]\<rparr>;
               skill_penalty = (if skill_type res \<noteq> required_skill t then 1 / 2 else 1);
               rsn = (if skill_type res \<noteq> required_skill t then Some ''skill_mismatch'' else None)
           in case chance R (disruption_prob (noise s1)) (rng s1) of (disrupted, g1) \<Rightarrow>
              if disrupted then
                emit R (day s1) (task_id t) EV_BLOCKED (Some ''random_disruption'') (s1\<lparr>rng := g1\<rparr>)
              else progress_step R k t res skill_penalty rsn (s1\<lparr>rng := g1\<rparr>)))"

definition start_task :: "'g random_module \<Rightarrow> string \<Rightarrow> task \<Rightarrow> 'g sim \<Rightarrow> 'g outcome" where
  "start_task R k t s =
     (if status t = NOT_STARTED \<or> status t = BLOCKED then
        (if status t = NOT_STARTED then
           (let t1 = (if actual_start t = None then t\<lparr>actual_start := Some (day s)\<rparr> else t)
            in then_do (emit R (day s) (task_id t1) EV_START None (put_task k t1 s))
                 (\<lambda>s'. resource_allocation R k (t1\<lparr>status := IN_PROGRESS\<rparr>)
                          (put_task k (t1\<lparr>status := IN_PROGRESS\<rparr>) s')))
         else resource_allocation R k (t\<lparr>status := IN_PROGRESS\<rparr>)
                (put_task k (t\<lparr>status := IN_PROGRESS\<rparr>) s))
      else resource_allocation R k t s)"

definition simulate_task :: "'g random_module \<Rightarrow> string \<Rightarrow> 'g sim \<Rightarrow> 'g outcome" where
  "simulate_task R k s =
     (case map_of (tasks s) k of
        None \<Rightarrow> (None, s)
      | Some t \<Rightarrow>
          if status t = COMPLETED then (None, s)
          else
            (case chance R (external_block_prob (noise s)) (rng s) of (ext, g1) \<Rightarrow>
             if ext then
               emit R (day s) (task_id t) EV_BLOCKED (Some ''external_block'')
                 (put_task k (t\<lparr>status := BLOCKED\<rparr>) (s\<lparr>rng := g1\<rparr>))
             else
               (case dependencies_completed (tasks s) (dependencies t) of
                  Inl e \<Rightarrow> (Some e, s\<lparr>rng := g1\<rparr>)
                | Inr False \<Rightarrow>
                    emit R (day s) (task_id t) EV_BLOCKED (Some ''dependencies'')
                      (put_task k (t\<lparr>status := BLOCKED\<rparr>) (s\<lparr>rng := g1\<rparr>))
                | Inr True \<Rightarrow> start_task R k t (s\<lparr>rng := g1\<rparr>))))"

fun simulate_tasks :: "'g random_module \<Rightarrow> string list \<Rightarrow> 'g sim \<Rightarrow> 'g outcome" where
  "simulate_tasks R [] s = (None, s)"
| "simulate_tasks R (k # ks) s = then_do (simulate_task R k s) (simulate_tasks R ks)"

definition simulate_day :: "'g random_module \<Rightarrow> 'g sim \<Rightarrow> 'g outcome" where
  "simulate_day R s =
     (let d = day s + 1;
          ready_logs = filter (\<lambda>l. ev_day l \<le> d) (delayed_logs s);
          s1 = s\<lparr>day := d,
                 delayed_logs := filter (\<lambda>l. d < ev_day l) (delayed_logs s),
                 logs := logs s @ ready_logs\<rparr>
      in then_do (simulate_tasks R (map fst (tasks s1)) s1)
           (\<lambda>s2. (None, s2\<lparr>resources := release_resources (resources s2)\<rparr>)))"

definition all_completed :: "'g sim \<Rightarrow> bool" where
  "all_completed s = list_all (\<lambda>(k, t). status t = COMPLETED) (tasks s)"

fun run_loop :: "'g random_module \<Rightarrow> nat \<Rightarrow> 'g sim \<Rightarrow> 'g outcome" where
  "run_loop R 0 s = (None, s)"
| "run_loop R (Suc n) s =
     then_do (simulate_day R s) (\<lambda>s'. if all_completed s' then (None, s') else run_loop R n s')"

text \<open>\<open>run(max_days)\<close>: \<open>range(max_days)\<close> is empty for a negative bound.\<close>

definition run :: "'g random_module \<Rightarrow> int \<Rightarrow> 'g sim \<Rightarrow> 'g outcome" where
  "run R max_days s = run_loop R (nat max_days) s"

text \<open>
  The generator belongs to the process, not to a simulator: a program that works with
  several simulators hands the state of the generator from one call to the next.
  \<open>object_of\<close> is the simulator object alone, and \<open>in_process obj g\<close> is the object \<open>obj\<close>
  at a moment when the generator of the process is in state \<open>g\<close>.
\<close>

definition object_of :: "'g sim \<Rightarrow> sim_object" where
  "object_of s =
     \<lparr>tasks = tasks s, resources = resources s, logs = logs s, delayed_logs = delayed_logs s,
      day = day s, noise = noise s\<rparr>"

definition in_process :: "sim_object \<Rightarrow> 'g \<Rightarrow> 'g sim" where
  "in_process obj g =
     \<lparr>tasks = tasks obj, resources = resources obj, logs = logs obj,
      delayed_logs = delayed_logs obj, day = day obj, noise = noise obj, rng = g\<rparr>"

text \<open>
  Two client programs that run two simulators on equal inputs (the second simulator gets
  fresh copies of the tasks and resources), started with the generator in state \<open>g0\<close>.

  \<open>a = ProjectSimulator(ts, rs, sd, nc); a.run(n); b = ProjectSimulator(ts, rs, sd, nc); b.run(n)\<close>
  is \<open>construct_run_twice\<close>;
  \<open>a = ProjectSimulator(ts, rs, sd, nc); b = ProjectSimulator(ts, rs, sd, nc); a.run(n); b.run(n)\<close>
  is \<open>construct_twice_run_twice\<close>.  The result is the outcome of the run of \<open>a\<close> and, when
  that run did not raise, the outcome of the run of \<open>b\<close>.
\<close>

definition construct_run_twice ::
  "'g random_module \<Rightarrow> task list \<Rightarrow> resource list \<Rightarrow> int \<Rightarrow> noise_config option \<Rightarrow> int \<Rightarrow> 'g
     \<Rightarrow> 'g outcome \<times> 'g outcome option" where
  "construct_run_twice R ts rs sd nc max_days g0 =
     (let a = ProjectSimulator R ts rs sd nc g0;
          ra = run R max_days a
      in if fst ra \<noteq> None then (ra, None)
         else (let b = ProjectSimulator R ts rs sd nc (rng (snd ra))
               in (ra, Some (run R max_days b))))"

definition construct_twice_run_twice ::
  "'g random_module \<Rightarrow> task list \<Rightarrow> resource list \<Rightarrow> int \<Rightarrow> noise_config option \<Rightarrow> int \<Rightarrow> 'g
     \<Rightarrow> 'g outcome \<times> 'g outcome option" where
  "construct_twice_run_twice R ts rs sd nc max_days g0 =
     (let a = ProjectSimulator R ts rs sd nc g0;
          b = ProjectSimulator R ts rs sd nc (rng a);
          ra = run R max_days (in_process (object_of a) (rng b))
      in if fst ra \<noteq> None then (ra, None)
         else (ra, Some (run R max_days (in_process (object_of b) (rng (snd ra))))))"

section \<open>Data pipeline: data_pipeline/ingest.py, normalize.py, features.py\<close>

record task_row =
  tr_task_id :: string
  tr_planned_duration :: int
  tr_complexity :: int
  tr_priority :: string
  tr_required_skill :: string
  tr_num_dependencies :: nat
  tr_actual_start :: "int option"
  tr_actual_end :: "int option"
  tr_status :: task_status
  tr_progress :: real

record event_row =
  er_day :: int
  er_task_id :: string
  er_event_type :: event_type
  er_reason :: "string option"
  observed_day :: int
  is_delayed_log :: bool

text \<open>\<open>ingest_simulation\<close> returns the dict \<open>{"tasks": ..., "events": ...}\<close>, here a pair.\<close>

definition ingest_simulation :: "'g sim \<Rightarrow> task_row list \<times> event_row list" where
  "ingest_simulation s =
     (map (\<lambda>(k, t). \<lparr>tr_task_id = task_id t, tr_planned_duration = planned_duration t,
                      tr_complexity = complexity t, tr_priority = priority t,
                      tr_required_skill = required_skill t,
                      tr_num_dependencies = length (dependencies t),
                      tr_actual_start = actual_start t, tr_actual_end = actual_end t,
                      tr_status = status t, tr_progress = progress t\<rparr>) (tasks s),
      map (\<lambda>event. \<lparr>er_day = ev_day event, er_task_id = ev_task_id event,
                      er_event_type = ev_type event, er_reason = ev_reason event,
                      observed_day = ev_day event, is_delayed_log = False\<rparr>) (logs s))"

text \<open>
  A pandas data frame is its list of rows; a frame built from an empty list of records has
  no columns at all, and selecting a column of it raises \<open>KeyError\<close>.
\<close>

datatype 'r data_frame = NoColumns | Columns "'r list"

definition DataFrame :: "'r list \<Rightarrow> 'r data_frame" where
  "DataFrame records = (if records = [] then NoColumns else Columns records)"

text \<open>
  \<open>normalize_events\<close>: the flag is recomputed from the two day columns and the rows are
  sorted by \<open>observed_day\<close>.  The order pandas gives to rows with equal keys is not fixed by
  the source; a stable sort stands for it.
\<close>

definition normalize_events :: "event_row data_frame \<Rightarrow> py_error + event_row data_frame" where
  "normalize_events events =
     (case events of
        NoColumns \<Rightarrow> Inl (KeyError ''observed_day'')
      | Columns rs \<Rightarrow>
          Inr (Columns (sort_key observed_day
                 (map (\<lambda>r. r\<lparr>is_delayed_log := er_day r < observed_day r\<rparr>) rs))))"

record block_row =
  bf_task_id :: string
  bf_dependencies :: int
  bf_no_resource_available :: int
  bf_skill_mismatch :: int
  bf_external_block :: int
  bf_random_disruption :: int
  bf_total_blocked_events :: int

text \<open>One cell of \<open>blocked.groupby(["task_id", "reason"]).size().unstack(fill_value=0)\<close>.\<close>

definition block_count :: "event_row list \<Rightarrow> string \<Rightarrow> string \<Rightarrow> int" where
  "block_count blocked tid rsn =
     int (length (filter (\<lambda>r. er_task_id r = tid \<and> er_reason r = Some rsn) blocked))"

text \<open>
  \<open>compute_block_features\<close>: one row per task id that has a blocked event with a reason
  (\<open>groupby\<close> drops missing keys and sorts the groups), with the five named reason columns
  and their sum.  Columns of reasons outside the five are not represented.
\<close>

definition compute_block_features :: "event_row data_frame \<Rightarrow> py_error + block_row list" where
  "compute_block_features events =
     (case events of
        NoColumns \<Rightarrow> Inl (KeyError ''event_type'')
      | Columns rs \<Rightarrow>
          (let blocked = filter (\<lambda>r. er_event_type r = EV_BLOCKED) rs;
               ids = sort (remdups (map er_task_id (filter (\<lambda>r. er_reason r \<noteq> None) blocked)))
           in Inr (map (\<lambda>tid.
                 \<lparr>bf_task_id = tid,
                  bf_dependencies = block_count blocked tid ''dependencies'',
                  bf_no_resource_available = block_count blocked tid ''no_resource_available'',
                  bf_skill_mismatch = block_count blocked tid ''skill_mismatch'',
                  bf_external_block = block_count blocked tid ''external_block'',
                  bf_random_disruption = block_count blocked tid ''random_disruption'',
                  bf_total_blocked_events =
                    block_count blocked tid ''dependencies''
                    + block_count blocked tid ''no_resource_available''
                    + block_count blocked tid ''skill_mismatch''
                    + block_count blocked tid ''external_block''
                    + block_count blocked tid ''random_disruption''\<rparr>) ids)))"

section \<open>Properties of simulator states\<close>

text \<open>A skill mismatch appears only as the reason of a progress event.\<close>

definition ev_ok :: "event_log \<Rightarrow> bool" where
  "ev_ok e = (ev_reason e = Some ''skill_mismatch'' \<longrightarrow> ev_type e = EV_PROGRESS)"

definition log_ok :: "'g sim \<Rightarrow> bool" where
  "log_ok s = (list_all ev_ok (logs s) \<and> list_all ev_ok (delayed_logs s))"

text \<open>
  Completion consistency, in the form that is preserved by every step: a completed task has
  its end day and full progress, any other task has no end day.
\<close>

definition task_consistent :: "task \<Rightarrow> bool" where
  "task_consistent t =
     (if status t = COMPLETED then actual_end t \<noteq> None \<and> 1 \<le> progress t else actual_end t = None)"

definition tasks_consistent :: "'g sim \<Rightarrow> bool" where
  "tasks_consistent s = list_all (\<lambda>(k, t). task_consistent t) (tasks s)"

definition open_task :: "task \<Rightarrow> bool" where
  "open_task t = (status t \<noteq> COMPLETED \<and> actual_end t = None)"

text \<open>Every listed dependency is a known task that is completed.\<close>

definition deps_done :: "(string \<times> task) list \<Rightarrow> string list \<Rightarrow> bool" where
  "deps_done tks ds =
     list_all (\<lambda>d. case map_of tks d of Some u \<Rightarrow> status u = COMPLETED | None \<Rightarrow> False) ds"

text \<open>Dependency gating: no task is in progress while one of its dependencies is not completed.\<close>

definition dependency_gating :: "'g sim \<Rightarrow> bool" where
  "dependency_gating s =
     list_all (\<lambda>(k, t). status t = IN_PROGRESS \<longrightarrow> deps_done (tasks s) (dependencies t)) (tasks s)"

definition gated :: "'g sim \<Rightarrow> bool" where
  "gated s = (distinct (map fst (tasks s)) \<and> dependency_gating s)"

definition gated_at :: "string \<Rightarrow> task \<Rightarrow> 'g sim \<Rightarrow> bool" where
  "gated_at k t s = (gated s \<and> map_of (tasks s) k = Some t)"

text \<open>The per-task execution state that the determinism claim compares.\<close>

definition task_states :: "'g sim \<Rightarrow> (string \<times> int option \<times> int option \<times> real \<times> task_status) list" where
  "task_states s = map (\<lambda>(k, t). (k, actual_start t, actual_end t, progress t, status t)) (tasks s)"

section \<open>A concrete generator and small projects, for evaluation\<close>

text \<open>
  A counter stands for the generator state: \<open>random()\<close> cycles through 0, 1/4, 1/2, 3/4
  and the bounded integer draw is the counter modulo the bound.
\<close>

definition test_random :: "nat random_module" where
  "test_random =
     \<lparr>seed = (\<lambda>sd. nat \<bar>sd\<bar>),
      random = (\<lambda>g. (real (g mod 4) / 4, g + 1)),
      randbelow = (\<lambda>n g. (int g mod n, g + 1))\<rparr>"

definition new_task :: "string \<Rightarrow> int \<Rightarrow> int \<Rightarrow> string \<Rightarrow> string \<Rightarrow> string list \<Rightarrow> task" where
  "new_task tid dur cx pr sk deps =
     \<lparr>task_id = tid, planned_duration = dur, complexity = cx, priority = pr,
      required_skill = sk, dependencies = deps, actual_start = None, actual_end = None,
      progress = 0, status = NOT_STARTED\<rparr>"

definition new_resource :: "string \<Rightarrow> string \<Rightarrow> real \<Rightarrow> resource" where
  "new_resource rid sk eff =
     \<lparr>resource_id = rid, skill_type = sk, efficiency = eff, availability = 8,
      assigned_task = None\<rparr>"

definition delay_only_noise :: noise_config where
  "delay_only_noise = \<lparr>disruption_prob = 0, rework_prob = 0, external_block_prob = 0,
     log_drop_prob = 0, log_delay_range = (1, 3)\<rparr>"

definition drop_all_noise :: noise_config where
  "drop_all_noise = \<lparr>disruption_prob = 0, rework_prob = 0, external_block_prob = 0,
     log_drop_prob = 1, log_delay_range = (1, 3)\<rparr>"

definition one_task_project :: "nat sim" where
  "one_task_project =
     ProjectSimulator test_random [new_task ''T1'' 3 1 ''high'' ''dev'' []]
       [new_resource ''R1'' ''qa'' 8] 0 (Some delay_only_noise) 0"

definition two_task_project :: "nat sim" where
  "two_task_project =
     ProjectSimulator test_random
       [new_task ''T1'' 3 1 ''high'' ''dev'' [], new_task ''T2'' 2 1 ''medium'' ''dev'' [''T1'']]
       [new_resource ''R1'' ''qa'' 8] 0 (Some delay_only_noise) 0"

section \<open>Rule engine: proofs\<close>

lemma rules_loop_filter:
  "rules_loop rs row (sc, acc) =
     (sc + sum_list (map score (filter (\<lambda>r. threshold r \<le> row_get row (field r) 0) rs)),
      acc @ map (\<lambda>r. \<lparr>text_of = reason r, severity_of = severity r\<rparr>)
                    (filter (\<lambda>r. threshold r \<le> row_get row (field r) 0) rs))"
  by (induction rs arbitrary: sc acc) (simp_all add: Let_def)

lemma RULES_score_nonneg: "r \<in> set RULES \<Longrightarrow> 0 \<le> score r"
  by (auto simp: RULES_def)

lemma fired_score_nonneg: "0 \<le> sum_list (map score (fired_rules row))"
  by (rule sum_list_nonneg) (auto simp: fired_rules_def RULES_score_nonneg)

text \<open>
  C4.  For every feature record, \<open>rule_based_risk\<close> returns the sum of the contributions
  of exactly the rules whose field value (0 when the field is absent) reaches the rule's
  threshold, clamped to the range 0..100, together with the reasons of the fired rules in
  declaration order; the score always lies between 0 and 100.
\<close>

theorem rule_based_risk_spec:
  "rule_based_risk row =
     (max 0 (min 100 (sum_list (map score (fired_rules row)))),
      map (\<lambda>r. \<lparr>text_of = reason r, severity_of = severity r\<rparr>) (fired_rules row))
   \<and> 0 \<le> fst (rule_based_risk row) \<and> fst (rule_based_risk row) \<le> 100"
proof -
  have nn: "0 \<le> sum_list (map score (fired_rules row))"
    by (rule fired_score_nonneg)
  have eq: "rule_based_risk row =
     (min (sum_list (map score (fired_rules row))) 100,
      map (\<lambda>r. \<lparr>text_of = reason r, severity_of = severity r\<rparr>) (fired_rules row))"
    by (simp add: rule_based_risk_def rules_loop_filter fired_rules_def)
  from nn eq show ?thesis by (simp add: min_def max_def)
qed


theorem rule_based_risk_spec_witness:
  "fst (rule_based_risk [''total_blocked_events'' \<mapsto> 3, ''dependencies'' \<mapsto> 2,
         ''no_resource_available'' \<mapsto> 1, ''rework_count'' \<mapsto> 2, ''max_progress_gap'' \<mapsto> 4]) = 90
   \<and> length (snd (rule_based_risk [''total_blocked_events'' \<mapsto> 3, ''dependencies'' \<mapsto> 2,
         ''no_resource_available'' \<mapsto> 1, ''rework_count'' \<mapsto> 2, ''max_progress_gap'' \<mapsto> 4])) = 5"
  using rule_based_risk_spec [of "[''total_blocked_events'' \<mapsto> 3, ''dependencies'' \<mapsto> 2,
         ''no_resource_available'' \<mapsto> 1, ''rework_count'' \<mapsto> 2, ''max_progress_gap'' \<mapsto> 4]"]
  by (simp add: fired_rules_def RULES_def row_get_def)

section \<open>What-if engine: proofs\<close>

lemma apply_effects_other:
  "f \<notin> fst ` set effs \<Longrightarrow> apply_effects effs row f = row f"
  by (induction effs arbitrary: row) (auto split: option.splits)

lemma apply_effects_hit:
  "distinct (map fst effs) \<Longrightarrow> (f, d) \<in> set effs \<Longrightarrow>
   apply_effects effs row f = (case row f of Some v \<Rightarrow> Some (max 0 (v + d)) | None \<Rightarrow> None)"
proof (induction effs arbitrary: row)
  case Nil
  then show ?case by simp
next
  case (Cons e effs)
  obtain g c where e: "e = (g, c)" by (cases e)
  show ?case
  proof (cases "(f, d) = e")
    case True
    with Cons.prems e have nf: "g \<notin> fst ` set effs" and fg: "f = g" "d = c" by auto
    show ?thesis
      by (simp add: e fg apply_effects_other[OF nf] split: option.splits)
  next
    case False
    with Cons.prems e have mem: "(f, d) \<in> set effs" and dist: "distinct (map fst effs)" by auto
    from mem Cons.prems e have ne: "f \<noteq> g" by force
    from Cons.IH[OF dist mem] ne e show ?thesis
      by (simp split: option.splits)
  qed
qed

lemma SCENARIOS_distinct:
  "map_of SCENARIOS sc = Some s \<Longrightarrow> distinct (map fst (effects s))"
  by (auto simp: SCENARIOS_def split: if_splits)

text \<open>
  C7.  For every feature record and every recognised scenario, \<open>simulate_what_if\<close>
  returns a record in which every field of the scenario's delta mapping that the record
  has is set to \<open>max 0 (old + delta)\<close> (a field the record lacks is not introduced), so
  every perturbed field is non-negative, and every other field is unchanged.  The
  specification's example is the witness below.
\<close>

theorem simulate_what_if_applies_deltas:
  assumes "map_of SCENARIOS sc = Some s"
  shows "\<exists>result. simulate_what_if row sc = Inr result \<and>
           (\<forall>(f, d) \<in> set (effects s).
              result f = (case row f of Some v \<Rightarrow> Some (max 0 (v + d)) | None \<Rightarrow> None) \<and>
              (\<forall>v. result f = Some v \<longrightarrow> 0 \<le> v)) \<and>
           (\<forall>f. f \<notin> fst ` set (effects s) \<longrightarrow> result f = row f)"
proof -
  have d: "distinct (map fst (effects s))" using assms by (rule SCENARIOS_distinct)
  have r: "simulate_what_if row sc = Inr (apply_effects (effects s) row)"
    using assms by (simp add: simulate_what_if_def)
  have hit: "\<And>f d. (f, d) \<in> set (effects s) \<Longrightarrow>
      apply_effects (effects s) row f = (case row f of Some v \<Rightarrow> Some (max 0 (v + d)) | None \<Rightarrow> None)"
    by (rule apply_effects_hit[OF d])
  have nonneg: "\<And>f d v. (f, d) \<in> set (effects s) \<Longrightarrow> apply_effects (effects s) row f = Some v \<Longrightarrow> 0 \<le> v"
    using hit by (fastforce split: option.splits)
  show ?thesis
    unfolding r using hit nonneg apply_effects_other by blast
qed

theorem simulate_what_if_add_resource_example:
  "map_of SCENARIOS ''add_resource'' \<noteq> None \<and>
   (\<exists>result. simulate_what_if [''no_resource_available'' \<mapsto> 2, ''total_blocked_events'' \<mapsto> 5] ''add_resource'' = Inr result
      \<and> result ''no_resource_available'' = Some 1 \<and> result ''total_blocked_events'' = Some 4)"
  using simulate_what_if_applies_deltas
    [of "''add_resource''" "the (map_of SCENARIOS ''add_resource'')"
        "[''no_resource_available'' \<mapsto> 2, ''total_blocked_events'' \<mapsto> 5]"]
  by (simp add: SCENARIOS_def) blast

text \<open>
  C8.  \<open>simulate_what_if\<close> fails with a \<open>ValueError\<close> exactly when the scenario name is
  not one of add_resource, reduce_dependencies, improve_process; for such a name it returns
  no record at all, in particular not the input record.
\<close>

theorem simulate_what_if_unknown_scenario:
  "(\<exists>msg. simulate_what_if row sc = Inl (ValueError msg))
     = (sc \<notin> {''add_resource'', ''reduce_dependencies'', ''improve_process''})
   \<and> (sc \<notin> {''add_resource'', ''reduce_dependencies'', ''improve_process''}
        \<longrightarrow> simulate_what_if row sc \<noteq> Inr row \<and> (\<forall>r. simulate_what_if row sc \<noteq> Inr r))"
proof -
  have k: "(map_of SCENARIOS sc = None) = (sc \<notin> {''add_resource'', ''reduce_dependencies'', ''improve_process''})"
    by (simp add: SCENARIOS_def)
  show ?thesis
    using k by (auto simp: simulate_what_if_def split: option.splits)
qed

theorem simulate_what_if_unknown_scenario_witness:
  "''invalid_scenario'' \<notin> {''add_resource'', ''reduce_dependencies'', ''improve_process''} \<and>
   (\<exists>msg. simulate_what_if [''no_resource_available'' \<mapsto> 2] ''invalid_scenario'' = Inl (ValueError msg)) \<and>
   simulate_what_if [''no_resource_available'' \<mapsto> 2] ''invalid_scenario'' \<noteq> Inr [''no_resource_available'' \<mapsto> 2]"
  using simulate_what_if_unknown_scenario [of "[''no_resource_available'' \<mapsto> 2]" "''invalid_scenario''"]
  by simp

section \<open>Python floats: lemmas\<close>

text \<open>
  The exponent is the one of the binade of \<open>x\<close>, and rounding moves \<open>x\<close> by at most half
  a unit in the last place, to a multiple of that unit.
\<close>

lemma bit_length_bounds:
  "0 < n \<Longrightarrow> 2 ^ (bit_length n - 1) \<le> n \<and> n < 2 ^ bit_length n"
proof (induction n rule: bit_length.induct)
  case (1 n)
  show ?case
  proof (cases "n div 2 = 0")
    case True
    with 1 have n: "n = 1" by (simp add: div_eq_0_iff) 
    show ?thesis by (simp add: n bit_length.simps)
  next
    case False
    then have pos: "0 < n div 2" by simp
    from 1 have n0: "n \<noteq> 0" by simp
    from "1.IH"[OF n0 pos]
    have lo: "2 ^ (bit_length (n div 2) - 1) \<le> n div 2" and hi: "n div 2 < 2 ^ bit_length (n div 2)"
      by simp_all
    have k: "0 < bit_length (n div 2)"
      using pos by (simp add: bit_length.simps[of "n div 2"])
    have bl: "bit_length n = Suc (bit_length (n div 2))"
      using n0 by (simp add: bit_length.simps[of n])
    have p: "(2::nat) ^ bit_length (n div 2) = 2 * 2 ^ (bit_length (n div 2) - 1)"
      using k by (cases "bit_length (n div 2)") simp_all
    have "2 ^ bit_length (n div 2) \<le> n"
      using lo p by linarith
    moreover have "n < 2 * 2 ^ bit_length (n div 2)"
      using hi by linarith
    ultimately show ?thesis
      by (simp add: bl)
  qed
qed

lemma binary_exponent_bounds:
  assumes "x \<noteq> 0"
  shows "pow2 (binary_exponent x) \<le> \<bar>x\<bar> \<and> \<bar>x\<bar> < pow2 (binary_exponent x + 1)"
proof (cases "1 \<le> \<bar>x\<bar>")
  case True
  define n where "n = nat \<lfloor>\<bar>x\<bar>\<rfloor>"
  have n1: "0 < n" using True by (simp add: n_def)
  have nx: "real n \<le> \<bar>x\<bar>" "\<bar>x\<bar> < real n + 1"
    using True by (simp_all add: n_def) (linarith+)?
  from bit_length_bounds[OF n1]
  have lo: "2 ^ (bit_length n - 1) \<le> n" and hi: "n < 2 ^ bit_length n" by simp_all
  have k: "0 < bit_length n" using n1 by (simp add: bit_length.simps[of n])
  have e: "binary_exponent x = int (bit_length n) - 1"
    using True by (simp add: binary_exponent_def n_def)
  have p1: "pow2 (binary_exponent x) = 2 ^ (bit_length n - 1)"
    using k by (simp add: e pow2_def nat_diff_distrib')
  have p2: "pow2 (binary_exponent x + 1) = 2 ^ bit_length n"
    by (simp add: e pow2_def)
  have a: "(2::real) ^ (bit_length n - 1) \<le> real n"
    using lo by (metis of_nat_le_iff of_nat_numeral of_nat_power)
  have b: "real n + 1 \<le> (2::real) ^ bit_length n"
    using hi by (metis Suc_leI of_nat_Suc of_nat_le_iff of_nat_numeral of_nat_power add.commute)
  show ?thesis
    unfolding p1 p2 using nx a b by linarith
next
  case False
  define y where "y = 1 / \<bar>x\<bar>"
  define n where "n = nat (\<lceil>y\<rceil> - 1)"
  have ax: "0 < \<bar>x\<bar>" "\<bar>x\<bar> < 1" using assms False by simp_all
  have y1: "1 < y" using ax by (simp add: y_def)
  have c2: "2 \<le> \<lceil>y\<rceil>" using y1 by linarith
  have n1: "0 < n" using c2 by (simp add: n_def)
  have ny: "real n < y" "y \<le> real n + 1"
    using c2 by (simp_all add: n_def) (linarith+)?
  from bit_length_bounds[OF n1]
  have lo: "2 ^ (bit_length n - 1) \<le> n" and hi: "n < 2 ^ bit_length n" by simp_all
  have k: "0 < bit_length n" using n1 by (simp add: bit_length.simps[of n])
  have e: "binary_exponent x = - int (bit_length n)"
    using False by (simp add: binary_exponent_def n_def y_def)
  have p1: "pow2 (binary_exponent x) = 1 / 2 ^ bit_length n"
    using k by (simp add: e pow2_def)
  have p2: "pow2 (binary_exponent x + 1) = 1 / 2 ^ (bit_length n - 1)"
    using k by (auto simp: e pow2_def nat_diff_distrib' algebra_simps)
  have a: "(2::real) ^ (bit_length n - 1) \<le> real n"
    using lo by (metis of_nat_le_iff of_nat_numeral of_nat_power)
  have b: "real n + 1 \<le> (2::real) ^ bit_length n"
    using hi by (metis Suc_leI of_nat_Suc of_nat_le_iff of_nat_numeral of_nat_power add.commute)
  have ylo: "2 ^ (bit_length n - 1) < y" using a ny by linarith
  have yhi: "y \<le> 2 ^ bit_length n" using b ny by linarith
  have xy: "\<bar>x\<bar> = 1 / y" using ax by (simp add: y_def)
  have "1 / 2 ^ bit_length n \<le> 1 / y"
    using yhi y1 by (simp add: frac_le)
  moreover have "1 / y < 1 / 2 ^ (bit_length n - 1)"
    using ylo by (simp add: frac_less2)
  ultimately show ?thesis
    unfolding p1 p2 xy by simp
qed

lemma pow2_pos: "0 < pow2 k"
  by (simp add: pow2_def)

lemma py_round_nearest: "\<bar>of_int (py_round y) - y\<bar> \<le> 1 / 2"
  by (simp add: py_round_def Let_def) (linarith+)?

lemma round_to_double_nearest:
  assumes "x \<noteq> 0"
  defines "ulp \<equiv> pow2 (max (binary_exponent x) (- 1022) - 52)"
  shows "round_to_double x = of_int (py_round (x / ulp)) * ulp"
    and "\<bar>round_to_double x - x\<bar> \<le> ulp / 2"
proof -
  have u: "0 < ulp" by (simp add: ulp_def pow2_pos)
  show r: "round_to_double x = of_int (py_round (x / ulp)) * ulp"
    using assms(1) by (simp add: round_to_double_def ulp_def Let_def)
  have "\<bar>of_int (py_round (x / ulp)) - x / ulp\<bar> * ulp \<le> 1 / 2 * ulp"
    using py_round_nearest[of "x / ulp"] u by (intro mult_right_mono) simp_all
  moreover have "(of_int (py_round (x / ulp)) - x / ulp) * ulp = of_int (py_round (x / ulp)) * ulp - x"
    using u by (simp add: left_diff_distrib)
  then have "\<bar>of_int (py_round (x / ulp)) - x / ulp\<bar> * ulp
      = \<bar>of_int (py_round (x / ulp)) * ulp - x\<bar>"
    using u by (metis abs_mult abs_of_pos)
  ultimately show "\<bar>round_to_double x - x\<bar> \<le> ulp / 2"
    by (simp add: r)
qed

section \<open>Hybrid scorer: proofs\<close>

lemma clamp_trunc:
  "max 0 (min 100 (if 0 \<le> x then \<lfloor>x\<rfloor> else \<lceil>x\<rceil>)) = max (0::int) (min 100 \<lfloor>x::real\<rfloor>)"
proof (cases "0 \<le> x")
  case True
  then show ?thesis by simp
next
  case False
  then have "\<lceil>x\<rceil> \<le> 0" "\<lfloor>x\<rfloor> \<le> 0" by (simp_all add: ceiling_le_iff floor_le_iff)
  with False show ?thesis by simp
qed

lemma hybrid_risk_score_finite:
  assumes "hybrid_settings cfg = (rw, mw, hi, med)"
    and "weighted_sum rw (fst (rule_based_risk row)) mw p = Fin v"
  shows "hybrid_risk_score row p cfg =
           Inr \<lparr>risk_score = max 0 (min 100 \<lfloor>v\<rfloor>),
                risk_level = (if int_ge (max 0 (min 100 \<lfloor>v\<rfloor>)) hi then ''High''
                              else if int_ge (max 0 (min 100 \<lfloor>v\<rfloor>)) med then ''Medium''
                              else ''Low''),
                reasons = snd (rule_based_risk row),
                ml_probability = py_round3 p, rule_score = fst (rule_based_risk row),
                weights_used = \<lparr>rule_weight = rw, ml_weight = mw\<rparr>\<rparr>"
proof -
  obtain rs rsns where rb: "rule_based_risk row = (rs, rsns)" by (cases "rule_based_risk row")
  show ?thesis
    using assms by (simp add: hybrid_risk_score_def rb py_int_def Let_def clamp_trunc)
qed

lemma hybrid_risk_score_raises:
  assumes "hybrid_settings cfg = (rw, mw, hi, med)"
  shows "weighted_sum rw (fst (rule_based_risk row)) mw p = NaN \<Longrightarrow>
           hybrid_risk_score row p cfg = Inl (ValueError ''cannot convert float NaN to integer'')"
    and "weighted_sum rw (fst (rule_based_risk row)) mw p = Infty b \<Longrightarrow>
           hybrid_risk_score row p cfg = Inl (OverflowError ''cannot convert float infinity to integer'')"
proof -
  obtain rs rsns where rb: "rule_based_risk row = (rs, rsns)" by (cases "rule_based_risk row")
  show "weighted_sum rw (fst (rule_based_risk row)) mw p = NaN \<Longrightarrow>
           hybrid_risk_score row p cfg = Inl (ValueError ''cannot convert float NaN to integer'')"
    using assms by (simp add: hybrid_risk_score_def rb py_int_def)
  show "weighted_sum rw (fst (rule_based_risk row)) mw p = Infty b \<Longrightarrow>
           hybrid_risk_score row p cfg = Inl (OverflowError ''cannot convert float infinity to integer'')"
    using assms by (simp add: hybrid_risk_score_def rb py_int_def)
qed

lemma hybrid_risk_score_returns:
  assumes "hybrid_settings cfg = (rw, mw, hi, med)"
    and "hybrid_risk_score row p cfg = Inr r"
  shows "\<exists>v. weighted_sum rw (fst (rule_based_risk row)) mw p = Fin v"
proof (cases "weighted_sum rw (fst (rule_based_risk row)) mw p")
  case (Fin v)
  then show ?thesis by simp
next
  case (Infty b)
  from hybrid_risk_score_raises(2)[OF assms(1) this] assms(2) show ?thesis by simp
next
  case NaN
  from hybrid_risk_score_raises(1)[OF assms(1) this] assms(2) show ?thesis by simp
qed

text \<open>The evaluation of float arithmetic on numerals.\<close>

lemmas float_eval = to_float_def round_to_double_def binary_exponent_def pow2_def py_round_def
  float_of_int_def weighted_sum_def py_round3_def Let_def bit_length.simps

lemma default_settings:
  "hybrid_settings None =
     (Fin (5404319552844595 / 9007199254740992), Fin (3602879701896397 / 9007199254740992),
      Fin 70, Fin 40)"
  by (simp add: hybrid_settings_def DEFAULT_RULE_WEIGHT_def DEFAULT_ML_WEIGHT_def
      DEFAULT_HIGH_THRESHOLD_def DEFAULT_MEDIUM_THRESHOLD_def float_eval)

text \<open>
  C5 (amended).  For every feature record (its rule score lies between 0 and 100), every
  probability, in particular one between 0 and 1, and all weights and thresholds: let the
  weighted sum be \<open>rule_weight * rule_score + ml_weight * (ml_probability * 100)\<close> as
  computed in floats, each operation rounded.  If it is finite, the scorer returns, the
  final score is the floor of that float clamped to 0..100, and the level is High when
  the score reaches the high threshold, else Medium when it reaches the medium threshold,
  else Low; a score equal to the high threshold is High, and when the medium threshold is
  below the high threshold, a score equal to the medium threshold is Medium and a score
  equal to the medium threshold minus one is Low.  If the sum is NaN or infinite, the
  scorer raises \<open>ValueError\<close> or \<open>OverflowError\<close>.
\<close>

theorem hybrid_risk_score_formula:
  fixes row :: feature_row and p :: pyfloat and cfg :: "config option"
  assumes "hybrid_settings cfg = (rw, mw, hi, med)"
  shows "(weighted_sum rw (fst (rule_based_risk row)) mw p = Fin v \<longrightarrow>
            (\<exists>r. hybrid_risk_score row p cfg = Inr r
               \<and> risk_score r = max 0 (min 100 \<lfloor>v\<rfloor>)
               \<and> 0 \<le> risk_score r \<and> risk_score r \<le> 100
               \<and> risk_level r = (if int_ge (risk_score r) hi then ''High''
                                 else if int_ge (risk_score r) med then ''Medium'' else ''Low'')
               \<and> (hi = Fin (of_int (risk_score r)) \<longrightarrow> risk_level r = ''High'')
               \<and> (hi = Fin h \<and> med = Fin m \<and> m < h \<and> of_int (risk_score r) = m
                    \<longrightarrow> risk_level r = ''Medium'')
               \<and> (hi = Fin h \<and> med = Fin m \<and> m < h \<and> of_int (risk_score r) = m - 1
                    \<longrightarrow> risk_level r = ''Low'')))
       \<and> (weighted_sum rw (fst (rule_based_risk row)) mw p = NaN \<longrightarrow>
            hybrid_risk_score row p cfg = Inl (ValueError ''cannot convert float NaN to integer''))
       \<and> (weighted_sum rw (fst (rule_based_risk row)) mw p = Infty b \<longrightarrow>
            hybrid_risk_score row p cfg
              = Inl (OverflowError ''cannot convert float infinity to integer''))"
proof -
  let ?sc = "max 0 (min 100 \<lfloor>v\<rfloor>)"
  let ?lv = "if int_ge ?sc hi then ''High'' else if int_ge ?sc med then ''Medium'' else ''Low''"
  let ?r = "\<lparr>risk_score = ?sc, risk_level = ?lv, reasons = snd (rule_based_risk row),
             ml_probability = py_round3 p, rule_score = fst (rule_based_risk row),
             weights_used = \<lparr>rule_weight = rw, ml_weight = mw\<rparr>\<rparr>"
  have b1: "hi = Fin (of_int ?sc) \<longrightarrow> ?lv = ''High''"
    by (simp add: int_ge_def)
  have b2: "hi = Fin h \<and> med = Fin m \<and> m < h \<and> of_int ?sc = m \<longrightarrow> ?lv = ''Medium''"
    by (auto simp: int_ge_def)
  have b3: "hi = Fin h \<and> med = Fin m \<and> m < h \<and> of_int ?sc = m - 1 \<longrightarrow> ?lv = ''Low''"
    by (auto simp: int_ge_def)
  have fin: "\<exists>r. hybrid_risk_score row p cfg = Inr r
               \<and> risk_score r = max 0 (min 100 \<lfloor>v\<rfloor>)
               \<and> 0 \<le> risk_score r \<and> risk_score r \<le> 100
               \<and> risk_level r = (if int_ge (risk_score r) hi then ''High''
                                 else if int_ge (risk_score r) med then ''Medium'' else ''Low'')
               \<and> (hi = Fin (of_int (risk_score r)) \<longrightarrow> risk_level r = ''High'')
               \<and> (hi = Fin h \<and> med = Fin m \<and> m < h \<and> of_int (risk_score r) = m
                    \<longrightarrow> risk_level r = ''Medium'')
               \<and> (hi = Fin h \<and> med = Fin m \<and> m < h \<and> of_int (risk_score r) = m - 1
                    \<longrightarrow> risk_level r = ''Low'')"
    if s: "weighted_sum rw (fst (rule_based_risk row)) mw p = Fin v"
  proof (rule exI[of _ ?r], intro conjI)
    show "hybrid_risk_score row p cfg = Inr ?r"
      by (rule hybrid_risk_score_finite[OF assms s])
    show "risk_score ?r = ?sc" by simp
    show "0 \<le> risk_score ?r" by simp
    show "risk_score ?r \<le> 100" by simp
    show "risk_level ?r = (if int_ge (risk_score ?r) hi then ''High''
                           else if int_ge (risk_score ?r) med then ''Medium'' else ''Low'')"
      by simp
    show "hi = Fin (of_int (risk_score ?r)) \<longrightarrow> risk_level ?r = ''High''"
      using b1 by simp
    show "hi = Fin h \<and> med = Fin m \<and> m < h \<and> of_int (risk_score ?r) = m
            \<longrightarrow> risk_level ?r = ''Medium''"
      using b2 by simp
    show "hi = Fin h \<and> med = Fin m \<and> m < h \<and> of_int (risk_score ?r) = m - 1
            \<longrightarrow> risk_level ?r = ''Low''"
      using b3 by simp
  qed
  from fin hybrid_risk_score_raises[OF assms, of row p] show ?thesis by blast
qed

text \<open>
  With the default configuration: rule score 90 and probability 0.4 give 70 and High, rule
  score 20 and probability 0.7 give 40 and Medium, rule score 15 and probability 0.75 give
  39 and Low.  With weights 0 and 1 and thresholds 57 and 40, probability 0.57 gives 56 and
  Medium: the float product \<open>0.57 * 100\<close> is just below 57.
\<close>

theorem hybrid_risk_score_formula_witness:
  "hybrid_settings None = (to_float (6 / 10), to_float (4 / 10), Fin 70, Fin 40)
   \<and> fst (rule_based_risk [''total_blocked_events'' \<mapsto> 3, ''dependencies'' \<mapsto> 2,
         ''no_resource_available'' \<mapsto> 1, ''rework_count'' \<mapsto> 2, ''max_progress_gap'' \<mapsto> 4]) = 90
   \<and> weighted_sum (to_float (6 / 10)) 90 (to_float (4 / 10)) (to_float (4 / 10)) = Fin 70
   \<and> map_sum id risk_score (hybrid_risk_score [''total_blocked_events'' \<mapsto> 3, ''dependencies'' \<mapsto> 2,
         ''no_resource_available'' \<mapsto> 1, ''rework_count'' \<mapsto> 2, ''max_progress_gap'' \<mapsto> 4]
         (to_float (4 / 10)) None) = Inr 70
   \<and> map_sum id risk_level (hybrid_risk_score [''total_blocked_events'' \<mapsto> 3, ''dependencies'' \<mapsto> 2,
         ''no_resource_available'' \<mapsto> 1, ''rework_count'' \<mapsto> 2, ''max_progress_gap'' \<mapsto> 4]
         (to_float (4 / 10)) None) = Inr ''High''
   \<and> fst (rule_based_risk [''no_resource_available'' \<mapsto> 1]) = 20
   \<and> weighted_sum (to_float (6 / 10)) 20 (to_float (4 / 10)) (to_float (7 / 10)) = Fin 40
   \<and> map_sum id risk_score (hybrid_risk_score [''no_resource_available'' \<mapsto> 1] (to_float (7 / 10)) None)
       = Inr 40
   \<and> map_sum id risk_level (hybrid_risk_score [''no_resource_available'' \<mapsto> 1] (to_float (7 / 10)) None)
       = Inr ''Medium''
   \<and> fst (rule_based_risk [''dependencies'' \<mapsto> 2]) = 15
   \<and> weighted_sum (to_float (6 / 10)) 15 (to_float (4 / 10)) (to_float (3 / 4)) = Fin 39
   \<and> map_sum id risk_score (hybrid_risk_score [''dependencies'' \<mapsto> 2] (to_float (3 / 4)) None) = Inr 39
   \<and> map_sum id risk_level (hybrid_risk_score [''dependencies'' \<mapsto> 2] (to_float (3 / 4)) None)
       = Inr ''Low''
   \<and> hybrid_settings (Some [(''risk_weights'', [(''rule_weight'', Fin 0), (''ml_weight'', Fin 1)]),
                          (''risk_thresholds'', [(''high'', Fin 57), (''medium'', Fin 40)])])
       = (Fin 0, Fin 1, Fin 57, Fin 40)
   \<and> weighted_sum (Fin 0) 0 (Fin 1) (to_float (57 / 100)) = Fin (57 - 1 / 2 ^ 47)
   \<and> map_sum id risk_score (hybrid_risk_score Map.empty (to_float (57 / 100))
         (Some [(''risk_weights'', [(''rule_weight'', Fin 0), (''ml_weight'', Fin 1)]),
                (''risk_thresholds'', [(''high'', Fin 57), (''medium'', Fin 40)])])) = Inr 56
   \<and> map_sum id risk_level (hybrid_risk_score Map.empty (to_float (57 / 100))
         (Some [(''risk_weights'', [(''rule_weight'', Fin 0), (''ml_weight'', Fin 1)]),
                (''risk_thresholds'', [(''high'', Fin 57), (''medium'', Fin 40)])])) = Inr ''Medium''"
proof -
  let ?all = "[''total_blocked_events'' \<mapsto> 3, ''dependencies'' \<mapsto> 2,
         ''no_resource_available'' \<mapsto> 1, ''rework_count'' \<mapsto> 2, ''max_progress_gap'' \<mapsto> 4]
         :: feature_row"
  have st: "hybrid_settings None = (to_float (6 / 10), to_float (4 / 10), Fin 70, Fin 40)"
    by (simp add: default_settings float_eval)
  have r90: "fst (rule_based_risk ?all) = 90"
    by (simp add: rule_based_risk_def RULES_def row_get_def)
  have r20: "fst (rule_based_risk [''no_resource_available'' \<mapsto> 1]) = 20"
    by (simp add: rule_based_risk_def RULES_def row_get_def)
  have r15: "fst (rule_based_risk [''dependencies'' \<mapsto> 2]) = 15"
    by (simp add: rule_based_risk_def RULES_def row_get_def)
  have s70: "weighted_sum (to_float (6 / 10)) 90 (to_float (4 / 10)) (to_float (4 / 10)) = Fin 70"
    by (simp add: float_eval)
  have s40: "weighted_sum (to_float (6 / 10)) 20 (to_float (4 / 10)) (to_float (7 / 10)) = Fin 40"
    by (simp add: float_eval)
  have s39: "weighted_sum (to_float (6 / 10)) 15 (to_float (4 / 10)) (to_float (3 / 4)) = Fin 39"
    by (simp add: float_eval)
  have a: "map_sum id risk_score (hybrid_risk_score ?all (to_float (4 / 10)) None) = Inr 70
         \<and> map_sum id risk_level (hybrid_risk_score ?all (to_float (4 / 10)) None) = Inr ''High''"
    using hybrid_risk_score_formula [OF st, of ?all "to_float (4 / 10)" 70 70 40 True] s70
    by (auto simp: r90)
  have b: "map_sum id risk_score (hybrid_risk_score [''no_resource_available'' \<mapsto> 1] (to_float (7 / 10)) None)
             = Inr 40
         \<and> map_sum id risk_level (hybrid_risk_score [''no_resource_available'' \<mapsto> 1] (to_float (7 / 10)) None)
             = Inr ''Medium''"
    using hybrid_risk_score_formula [OF st, of "[''no_resource_available'' \<mapsto> 1]"
        "to_float (7 / 10)" 40 70 40 True] s40
    by (auto simp: r20)
  have c: "map_sum id risk_score (hybrid_risk_score [''dependencies'' \<mapsto> 2] (to_float (3 / 4)) None) = Inr 39
         \<and> map_sum id risk_level (hybrid_risk_score [''dependencies'' \<mapsto> 2] (to_float (3 / 4)) None)
             = Inr ''Low''"
    using hybrid_risk_score_formula [OF st, of "[''dependencies'' \<mapsto> 2]" "to_float (3 / 4)" 39 70 40 True]
      s39
    by (auto simp: r15)
  let ?cfg = "Some [(''risk_weights'', [(''rule_weight'', Fin 0), (''ml_weight'', Fin 1)]),
                    (''risk_thresholds'', [(''high'', Fin 57), (''medium'', Fin 40)])]"
  have st57: "hybrid_settings ?cfg = (Fin 0, Fin 1, Fin 57, Fin 40)"
    by (simp add: hybrid_settings_def dict_get_def)
  have r0: "fst (rule_based_risk Map.empty) = 0"
    by (simp add: rule_based_risk_def RULES_def row_get_def)
  have s57: "weighted_sum (Fin 0) 0 (Fin 1) (to_float (57 / 100)) = Fin (57 - 1 / 2 ^ 47)"
    by (simp add: float_eval)
  have fl: "\<lfloor>57 - 1 / 2 ^ 47 :: real\<rfloor> = 56"
    by (simp add: floor_eq_iff)
  have d: "map_sum id risk_score (hybrid_risk_score Map.empty (to_float (57 / 100)) ?cfg) = Inr 56
         \<and> map_sum id risk_level (hybrid_risk_score Map.empty (to_float (57 / 100)) ?cfg) = Inr ''Medium''"
    using hybrid_risk_score_formula [OF st57, of Map.empty "to_float (57 / 100)" "57 - 1 / 2 ^ 47" 57 40 True]
      s57
    by (auto simp: r0 fl int_ge_def)
  from st r90 r20 r15 s70 s40 s39 a b c st57 s57 d show ?thesis
    by blast
qed

text \<open>
  C5 as stated fails in three ways.  With the default weights, rule score 20 and
  probability 0.7, the scorer returns 40 and Medium, while the floor of the exact value of
  \<open>rule_weight * rule_score + ml_weight * ml_probability * 100\<close> on the same three floats is
  39, for which the claim gives Low: the sum is rounded at every operation.  With the high
  and the medium threshold both 40, a final score of 40 equals the medium threshold and
  the level is High, not Medium.  With the rule weight \<open>2 ^ 1023\<close>, a float, rule score 20
  and probability 0.7, the sum is infinite and the scorer raises \<open>OverflowError\<close>: it returns
  no score.
\<close>

theorem hybrid_risk_score_counterexample:
  "hybrid_settings None
     = (Fin (5404319552844595 / 9007199254740992), Fin (3602879701896397 / 9007199254740992),
        Fin 70, Fin 40)
   \<and> to_float (7 / 10) = Fin (3152519739159347 / 4503599627370496)
   \<and> fst (rule_based_risk [''no_resource_available'' \<mapsto> 1]) = 20
   \<and> \<lfloor>5404319552844595 / 9007199254740992 * 20
        + 3602879701896397 / 9007199254740992 * (3152519739159347 / 4503599627370496) * (100::real)\<rfloor>
       = (39::int)
   \<and> map_sum id risk_score (hybrid_risk_score [''no_resource_available'' \<mapsto> 1] (to_float (7 / 10)) None)
       = Inr 40
   \<and> map_sum id risk_level (hybrid_risk_score [''no_resource_available'' \<mapsto> 1] (to_float (7 / 10)) None)
       = Inr ''Medium''
   \<and> hybrid_settings (Some [(''risk_weights'', [(''rule_weight'', Fin 0), (''ml_weight'', Fin 1)]),
                          (''risk_thresholds'', [(''high'', Fin 40), (''medium'', Fin 40)])])
       = (Fin 0, Fin 1, Fin 40, Fin 40)
   \<and> map_sum id risk_score (hybrid_risk_score Map.empty (to_float (4 / 10))
         (Some [(''risk_weights'', [(''rule_weight'', Fin 0), (''ml_weight'', Fin 1)]),
                (''risk_thresholds'', [(''high'', Fin 40), (''medium'', Fin 40)])])) = Inr 40
   \<and> map_sum id risk_level (hybrid_risk_score Map.empty (to_float (4 / 10))
         (Some [(''risk_weights'', [(''rule_weight'', Fin 0), (''ml_weight'', Fin 1)]),
                (''risk_thresholds'', [(''high'', Fin 40), (''medium'', Fin 40)])])) = Inr ''High''
   \<and> hybrid_risk_score [''no_resource_available'' \<mapsto> 1] (to_float (7 / 10))
         (Some [(''risk_weights'', [(''rule_weight'', Fin (2 ^ 1023))])])
       = Inl (OverflowError ''cannot convert float infinity to integer'')"
proof -
  let ?cfg = "Some [(''risk_weights'', [(''rule_weight'', Fin 0), (''ml_weight'', Fin 1)]),
                    (''risk_thresholds'', [(''high'', Fin 40), (''medium'', Fin 40)])]"
  have st: "hybrid_settings ?cfg = (Fin 0, Fin 1, Fin 40, Fin 40)"
    by (simp add: hybrid_settings_def dict_get_def)
  have r20: "fst (rule_based_risk [''no_resource_available'' \<mapsto> 1]) = 20"
    by (simp add: rule_based_risk_def RULES_def row_get_def)
  have r0: "fst (rule_based_risk Map.empty) = 0"
    by (simp add: rule_based_risk_def RULES_def row_get_def)
  have p7: "to_float (7 / 10) = Fin (3152519739159347 / 4503599627370496)"
    by (simp add: float_eval)
  have s40: "weighted_sum (Fin (5404319552844595 / 9007199254740992)) 20
               (Fin (3602879701896397 / 9007199254740992)) (to_float (7 / 10)) = Fin 40"
    by (simp add: float_eval)
  have t40: "weighted_sum (Fin 0) 0 (Fin 1) (to_float (4 / 10)) = Fin 40"
    by (simp add: float_eval)
  have fl: "\<lfloor>5404319552844595 / 9007199254740992 * 20
        + 3602879701896397 / 9007199254740992 * (3152519739159347 / 4503599627370496) * (100::real)\<rfloor>
       = (39::int)"
    by simp
  have a: "hybrid_risk_score [''no_resource_available'' \<mapsto> 1] (to_float (7 / 10)) None
      = Inr \<lparr>risk_score = 40, risk_level = ''Medium'',
              reasons = snd (rule_based_risk [''no_resource_available'' \<mapsto> 1]),
              ml_probability = py_round3 (to_float (7 / 10)), rule_score = 20,
              weights_used = \<lparr>rule_weight = Fin (5404319552844595 / 9007199254740992),
                               ml_weight = Fin (3602879701896397 / 9007199254740992)\<rparr>\<rparr>"
    using hybrid_risk_score_finite[OF default_settings, of "[''no_resource_available'' \<mapsto> 1]"
        "to_float (7 / 10)" 40] s40
    by (simp add: r20 int_ge_def)
  have b: "hybrid_risk_score Map.empty (to_float (4 / 10)) ?cfg
      = Inr \<lparr>risk_score = 40, risk_level = ''High'',
              reasons = snd (rule_based_risk Map.empty),
              ml_probability = py_round3 (to_float (4 / 10)), rule_score = 0,
              weights_used = \<lparr>rule_weight = Fin 0, ml_weight = Fin 1\<rparr>\<rparr>"
    using hybrid_risk_score_finite[OF st, of Map.empty "to_float (4 / 10)" 40] t40
    by (simp add: r0 int_ge_def)
  have st3: "hybrid_settings (Some [(''risk_weights'', [(''rule_weight'', Fin (2 ^ 1023))])])
      = (Fin (2 ^ 1023), DEFAULT_ML_WEIGHT, DEFAULT_HIGH_THRESHOLD, DEFAULT_MEDIUM_THRESHOLD)"
    by (simp add: hybrid_settings_def dict_get_def)
  have big: "fmul (Fin (2 ^ 1023)) (float_of_int 20) = Infty True"
    by (simp add: float_eval)
  have small: "fmul DEFAULT_ML_WEIGHT (fmul (to_float (7 / 10)) (float_of_int 100)) = Fin 28"
    by (simp add: DEFAULT_ML_WEIGHT_def float_eval)
  have inf: "weighted_sum (Fin (2 ^ 1023)) 20 DEFAULT_ML_WEIGHT (to_float (7 / 10)) = Infty True"
    unfolding weighted_sum_def big small by simp
  have c: "hybrid_risk_score [''no_resource_available'' \<mapsto> 1] (to_float (7 / 10))
         (Some [(''risk_weights'', [(''rule_weight'', Fin (2 ^ 1023))])])
       = Inl (OverflowError ''cannot convert float infinity to integer'')"
    using hybrid_risk_score_raises(2)[OF st3, of "[''no_resource_available'' \<mapsto> 1]"
        "to_float (7 / 10)" True] inf
    by (simp add: r20)
  show ?thesis
    unfolding a b c using default_settings st p7 r20 fl by simp
qed

text \<open>
  C6 (amended).  Whenever the hybrid scorer returns, its result carries the weights that
  were applied and the rule score: recomputing the weighted sum from the reported weights
  and rule score gives the reported final score.  It returns whenever the weighted sum is
  finite.  The thresholds are not part of the result.
\<close>

theorem hybrid_result_audit_fields:
  fixes row :: feature_row and p :: pyfloat and cfg :: "config option"
  assumes "hybrid_settings cfg = (rw, mw, hi, med)"
  shows "(hybrid_risk_score row p cfg = Inr r \<longrightarrow>
            weights_used r = \<lparr>rule_weight = rw, ml_weight = mw\<rparr>
          \<and> rule_score r = fst (rule_based_risk row)
          \<and> map_sum id (\<lambda>n. max 0 (min 100 n))
               (py_int (fadd (fmul (rule_weight (weights_used r)) (float_of_int (rule_score r)))
                             (fmul (ml_weight (weights_used r)) (fmul p (float_of_int 100)))))
              = Inr (risk_score r))
       \<and> (weighted_sum rw (fst (rule_based_risk row)) mw p = Fin v \<longrightarrow>
            (\<exists>r'. hybrid_risk_score row p cfg = Inr r'))"
proof -
  have a: "weights_used r = \<lparr>rule_weight = rw, ml_weight = mw\<rparr>
          \<and> rule_score r = fst (rule_based_risk row)
          \<and> map_sum id (\<lambda>n. max 0 (min 100 n))
               (py_int (fadd (fmul (rule_weight (weights_used r)) (float_of_int (rule_score r)))
                             (fmul (ml_weight (weights_used r)) (fmul p (float_of_int 100)))))
              = Inr (risk_score r)"
    if r: "hybrid_risk_score row p cfg = Inr r"
  proof -
    obtain v' where s: "weighted_sum rw (fst (rule_based_risk row)) mw p = Fin v'"
      using hybrid_risk_score_returns[OF assms r] by blast
    from hybrid_risk_score_finite[OF assms s] r s show ?thesis
      by (auto simp: py_int_def clamp_trunc weighted_sum_def)
  qed
  have b: "\<exists>r'. hybrid_risk_score row p cfg = Inr r'"
    if s: "weighted_sum rw (fst (rule_based_risk row)) mw p = Fin v"
    using hybrid_risk_score_finite[OF assms s] by simp
  from a b show ?thesis by blast
qed

theorem hybrid_result_audit_fields_witness:
  "hybrid_settings None = (to_float (6 / 10), to_float (4 / 10), Fin 70, Fin 40)
   \<and> weighted_sum (to_float (6 / 10)) 0 (to_float (4 / 10)) (to_float (1 / 2)) = Fin 20
   \<and> hybrid_risk_score Map.empty (to_float (1 / 2)) None
       = Inr \<lparr>risk_score = 20, risk_level = ''Low'', reasons = [],
               ml_probability = to_float (1 / 2), rule_score = 0,
               weights_used = \<lparr>rule_weight = to_float (6 / 10), ml_weight = to_float (4 / 10)\<rparr>\<rparr>"
proof -
  have st: "hybrid_settings None = (to_float (6 / 10), to_float (4 / 10), Fin 70, Fin 40)"
    by (simp add: default_settings float_eval)
  have rb: "rule_based_risk Map.empty = (0, [])"
    by (simp add: rule_based_risk_def RULES_def row_get_def)
  have s: "weighted_sum (to_float (6 / 10)) 0 (to_float (4 / 10)) (to_float (1 / 2)) = Fin 20"
    by (simp add: float_eval)
  have h: "hybrid_risk_score Map.empty (to_float (1 / 2)) None
       = Inr \<lparr>risk_score = 20, risk_level = ''Low'', reasons = [],
               ml_probability = to_float (1 / 2), rule_score = 0,
               weights_used = \<lparr>rule_weight = to_float (6 / 10), ml_weight = to_float (4 / 10)\<rparr>\<rparr>"
    using hybrid_risk_score_finite[OF st, of Map.empty "to_float (1 / 2)" 20] s
    by (simp add: rb int_ge_def float_eval)
  show ?thesis
    using st s h
      hybrid_result_audit_fields [OF st, of Map.empty "to_float (1 / 2)"
        "\<lparr>risk_score = 20, risk_level = ''Low'', reasons = [],
               ml_probability = to_float (1 / 2), rule_score = 0,
               weights_used = \<lparr>rule_weight = to_float (6 / 10), ml_weight = to_float (4 / 10)\<rparr>\<rparr>" 20]
    by simp
qed

text \<open>
  C6 as stated says that the result contains the thresholds applied.  Two configurations
  that apply different thresholds give the very same result, so the result does not tell
  which thresholds were applied.
\<close>

theorem hybrid_result_omits_thresholds_counterexample:
  "hybrid_risk_score Map.empty (to_float (1 / 2))
       (Some [(''risk_thresholds'', [(''high'', Fin 70), (''medium'', Fin 40)])])
     = hybrid_risk_score Map.empty (to_float (1 / 2))
         (Some [(''risk_thresholds'', [(''high'', Fin 80), (''medium'', Fin 50)])])
   \<and> hybrid_settings (Some [(''risk_thresholds'', [(''high'', Fin 70), (''medium'', Fin 40)])])
     = (DEFAULT_RULE_WEIGHT, DEFAULT_ML_WEIGHT, Fin 70, Fin 40)
   \<and> hybrid_settings (Some [(''risk_thresholds'', [(''high'', Fin 80), (''medium'', Fin 50)])])
     = (DEFAULT_RULE_WEIGHT, DEFAULT_ML_WEIGHT, Fin 80, Fin 50)
   \<and> map_sum id risk_score (hybrid_risk_score Map.empty (to_float (1 / 2))
         (Some [(''risk_thresholds'', [(''high'', Fin 70), (''medium'', Fin 40)])])) = Inr 20"
proof -
  have st1: "hybrid_settings (Some [(''risk_thresholds'', [(''high'', Fin 70), (''medium'', Fin 40)])])
     = (DEFAULT_RULE_WEIGHT, DEFAULT_ML_WEIGHT, Fin 70, Fin 40)"
    by (simp add: hybrid_settings_def dict_get_def)
  have st2: "hybrid_settings (Some [(''risk_thresholds'', [(''high'', Fin 80), (''medium'', Fin 50)])])
     = (DEFAULT_RULE_WEIGHT, DEFAULT_ML_WEIGHT, Fin 80, Fin 50)"
    by (simp add: hybrid_settings_def dict_get_def)
  have rb: "rule_based_risk Map.empty = (0, [])"
    by (simp add: rule_based_risk_def RULES_def row_get_def)
  have s: "weighted_sum DEFAULT_RULE_WEIGHT 0 DEFAULT_ML_WEIGHT (to_float (1 / 2)) = Fin 20"
    by (simp add: DEFAULT_RULE_WEIGHT_def DEFAULT_ML_WEIGHT_def float_eval)
  show ?thesis
    using st1 st2 s
    by (simp add: hybrid_risk_score_finite[OF st1, of Map.empty "to_float (1 / 2)" 20]
          hybrid_risk_score_finite[OF st2, of Map.empty "to_float (1 / 2)" 20] rb int_ge_def)
qed

section \<open>Simulator: sequencing, frame and construction lemmas\<close>

lemma then_do_post:
  assumes "Q (snd r)" and "\<And>s. Q s \<Longrightarrow> P s" and "\<And>s. Q s \<Longrightarrow> P (snd (f s))"
  shows "P (snd (then_do r f))"
  using assms by (cases r) (auto simp: then_do_def split: option.splits)

lemma log_event_frame [simp]:
  "tasks (snd (log_event R event s)) = tasks s"
  "resources (snd (log_event R event s)) = resources s"
  "day (snd (log_event R event s)) = day s"
  "noise (snd (log_event R event s)) = noise s"
  by (auto simp: log_event_def split: prod.splits sum.splits)

lemma emit_frame [simp]:
  "tasks (snd (emit R d tid ty rsn s)) = tasks s"
  "resources (snd (emit R d tid ty rsn s)) = resources s"
  "day (snd (emit R d tid ty rsn s)) = day s"
  "noise (snd (emit R d tid ty rsn s)) = noise s"
  by (auto simp: emit_def split: sum.splits)

lemma put_task_frame [simp]:
  "resources (put_task k t s) = resources s"
  "day (put_task k t s) = day s"
  "noise (put_task k t s) = noise s"
  "rng (put_task k t s) = rng s"
  "logs (put_task k t s) = logs s"
  "delayed_logs (put_task k t s) = delayed_logs s"
  "map fst (tasks (put_task k t s)) = map fst (tasks s)"
  by (auto simp: put_task_def)

lemma dict_insert_keys:
  "map fst (dict_insert k v d) = (if k \<in> fst ` set d then map fst d else map fst d @ [k])"
  by (induction d) (force simp: image_iff)+

lemma dict_insert_values: "set (dict_insert k v d) \<subseteq> insert (k, v) (set d)"
  by (induction d) (auto split: if_splits)

lemma dict_insert_distinct: "distinct (map fst d) \<Longrightarrow> distinct (map fst (dict_insert k v d))"
  by (induction d) (auto simp: dict_insert_keys)

lemma foldl_dict_insert_values:
  "snd ` set (foldl (\<lambda>d t. dict_insert (f t) t d) d0 ts) \<subseteq> snd ` set d0 \<union> set ts"
proof (induction ts arbitrary: d0)
  case Nil
  then show ?case by simp
next
  case (Cons t ts)
  have "snd ` set (dict_insert (f t) t d0) \<subseteq> insert t (snd ` set d0)"
    using dict_insert_values[of "f t" t d0] by auto
  with Cons.IH[of "dict_insert (f t) t d0"] show ?case by auto
qed

lemma foldl_dict_insert_distinct:
  "distinct (map fst d0) \<Longrightarrow> distinct (map fst (foldl (\<lambda>d t. dict_insert (f t) t d) d0 ts))"
  by (induction ts arbitrary: d0) (auto simp: dict_insert_distinct)

lemma tasks_dict_values: "(k, t) \<in> set (tasks_dict ts) \<Longrightarrow> t \<in> set ts"
  using foldl_dict_insert_values[of task_id "[]" ts] by (force simp: tasks_dict_def)

lemma tasks_dict_distinct: "distinct (map fst (tasks_dict ts))"
  by (simp add: tasks_dict_def foldl_dict_insert_distinct)

section \<open>Simulator: reasons of recorded events\<close>

lemma log_ok_then_do:
  "log_ok (snd r) \<Longrightarrow> (\<And>s. log_ok s \<Longrightarrow> log_ok (snd (f s))) \<Longrightarrow> log_ok (snd (then_do r f))"
  by (rule then_do_post[where Q = log_ok and P = log_ok])

lemma log_ok_simps [simp]:
  "log_ok (s\<lparr>rng := g\<rparr>) = log_ok s"
  "log_ok (put_task k t s) = log_ok s"
  "log_ok (s\<lparr>resources := rs\<rparr>) = log_ok s"
  by (simp_all add: log_ok_def put_task_def)

lemma log_event_log_ok:
  "log_ok s \<Longrightarrow> ev_ok event \<Longrightarrow> log_ok (snd (log_event R event s))"
  by (auto simp: log_event_def log_ok_def ev_ok_def EventLog_def split: prod.splits sum.splits if_splits)

lemma emit_log_ok:
  "log_ok s \<Longrightarrow> (rsn = Some ''skill_mismatch'' \<longrightarrow> ty = EV_PROGRESS) \<Longrightarrow>
   log_ok (snd (emit R d tid ty rsn s))"
  by (auto simp: emit_def EventLog_def ev_ok_def intro!: log_event_log_ok)

lemma completion_log_ok: "log_ok s \<Longrightarrow> log_ok (snd (completion R k t s))"
  by (simp add: completion_def Let_def emit_log_ok)

lemma rework_step_log_ok: "log_ok s \<Longrightarrow> log_ok (snd (rework_step R k t s))"
  by (auto simp: rework_step_def Let_def emit_log_ok completion_log_ok split: prod.splits
      intro!: log_ok_then_do)

lemma progress_step_log_ok:
  "log_ok s \<Longrightarrow> log_ok (snd (progress_step R k t res pen rsn s))"
  by (auto simp: progress_step_def Let_def emit_log_ok rework_step_log_ok split: prod.splits
      intro!: log_ok_then_do)

lemma resource_allocation_log_ok: "log_ok s \<Longrightarrow> log_ok (snd (resource_allocation R k t s))"
  by (auto simp: resource_allocation_def Let_def emit_log_ok progress_step_log_ok
      split: prod.splits option.splits)

lemma start_task_log_ok: "log_ok s \<Longrightarrow> log_ok (snd (start_task R k t s))"
  by (auto simp: start_task_def Let_def emit_log_ok resource_allocation_log_ok
      intro!: log_ok_then_do)

lemma simulate_task_log_ok: "log_ok s \<Longrightarrow> log_ok (snd (simulate_task R k s))"
  by (auto simp: simulate_task_def emit_log_ok start_task_log_ok
      split: option.splits prod.splits sum.splits bool.splits)

lemma simulate_tasks_log_ok: "log_ok s \<Longrightarrow> log_ok (snd (simulate_tasks R ks s))"
  by (induction ks arbitrary: s)
     (auto simp: simulate_task_log_ok intro!: log_ok_then_do)

lemma simulate_day_log_ok: "log_ok s \<Longrightarrow> log_ok (snd (simulate_day R s))"
proof -
  assume a: "log_ok s"
  have b: "log_ok (s\<lparr>day := day s + 1,
                 delayed_logs := filter (\<lambda>l. day s + 1 < ev_day l) (delayed_logs s),
                 logs := logs s @ filter (\<lambda>l. ev_day l \<le> day s + 1) (delayed_logs s)\<rparr>)"
    using a by (auto simp: log_ok_def list_all_iff)
  show ?thesis
    unfolding simulate_day_def Let_def
    by (rule log_ok_then_do) (simp_all add: simulate_tasks_log_ok b)
qed

lemma run_loop_log_ok: "log_ok s \<Longrightarrow> log_ok (snd (run_loop R n s))"
  by (induction n arbitrary: s)
     (auto simp: simulate_day_log_ok intro!: log_ok_then_do)

lemma init_log_ok: "log_ok (ProjectSimulator R ts rs sd nc g)"
  by (simp add: ProjectSimulator_def log_ok_def)

lemma run_log_ok: "log_ok (snd (run R md (ProjectSimulator R ts rs sd nc g)))"
  by (simp add: run_def run_loop_log_ok init_log_ok)

section \<open>Simulator: completion consistency\<close>

lemma tasks_consistent_simps [simp]:
  "tasks_consistent (s\<lparr>rng := g\<rparr>) = tasks_consistent s"
  "tasks_consistent (s\<lparr>resources := rs\<rparr>) = tasks_consistent s"
  "tasks_consistent (snd (emit R d tid ty rsn s)) = tasks_consistent s"
  by (simp_all add: tasks_consistent_def)

lemma put_task_consistent:
  "tasks_consistent s \<Longrightarrow> task_consistent t \<Longrightarrow> tasks_consistent (put_task k t s)"
  by (auto simp: tasks_consistent_def put_task_def list_all_iff split: if_splits)

lemma consistent_then_do:
  "tasks_consistent (snd r) \<Longrightarrow> (\<And>s. tasks_consistent s \<Longrightarrow> tasks_consistent (snd (f s)))
   \<Longrightarrow> tasks_consistent (snd (then_do r f))"
  by (rule then_do_post[where Q = tasks_consistent and P = tasks_consistent])

lemma completion_consistent:
  "tasks_consistent s \<Longrightarrow> open_task t \<Longrightarrow> tasks_consistent (snd (completion R k t s))"
  by (simp add: completion_def Let_def put_task_consistent task_consistent_def open_task_def)

lemma rework_step_consistent:
  "tasks_consistent s \<Longrightarrow> open_task t \<Longrightarrow> tasks_consistent (snd (rework_step R k t s))"
  by (auto simp: rework_step_def Let_def completion_consistent put_task_consistent
        task_consistent_def open_task_def
      split: prod.splits intro!: consistent_then_do)

lemma progress_step_consistent:
  "tasks_consistent s \<Longrightarrow> open_task t \<Longrightarrow>
   tasks_consistent (snd (progress_step R k t res pen rsn s))"
  by (auto simp: progress_step_def Let_def rework_step_consistent put_task_consistent
        task_consistent_def open_task_def
      split: prod.splits intro!: consistent_then_do)

lemma resource_allocation_consistent:
  "tasks_consistent s \<Longrightarrow> open_task t \<Longrightarrow> tasks_consistent (snd (resource_allocation R k t s))"
  by (auto simp: resource_allocation_def Let_def progress_step_consistent put_task_consistent
        task_consistent_def open_task_def
      split: prod.splits option.splits)

lemma start_task_consistent:
  "tasks_consistent s \<Longrightarrow> open_task t \<Longrightarrow> tasks_consistent (snd (start_task R k t s))"
  by (auto simp: start_task_def Let_def resource_allocation_consistent put_task_consistent
        task_consistent_def open_task_def
      intro!: consistent_then_do)

lemma tasks_consistent_lookup:
  "tasks_consistent s \<Longrightarrow> map_of (tasks s) k = Some t \<Longrightarrow> status t \<noteq> COMPLETED \<Longrightarrow> open_task t"
  by (auto simp: tasks_consistent_def list_all_iff open_task_def task_consistent_def
      dest!: map_of_SomeD split: if_splits)

lemma simulate_task_consistent:
  "tasks_consistent s \<Longrightarrow> tasks_consistent (snd (simulate_task R k s))"
proof (cases "map_of (tasks s) k")
  case None
  then show "tasks_consistent s \<Longrightarrow> ?thesis" by (simp add: simulate_task_def)
next
  case (Some t)
  assume a: "tasks_consistent s"
  show ?thesis
  proof (cases "status t = COMPLETED")
    case True
    with Some a show ?thesis by (simp add: simulate_task_def)
  next
    case False
    from tasks_consistent_lookup[OF a Some False] have o: "open_task t" .
    then have b: "task_consistent (t\<lparr>status := BLOCKED\<rparr>)"
      by (simp add: open_task_def task_consistent_def)
    show ?thesis
      using a o b Some False
      by (auto simp: simulate_task_def put_task_consistent start_task_consistent
          split: prod.splits sum.splits bool.splits)
  qed
qed

lemma simulate_tasks_consistent:
  "tasks_consistent s \<Longrightarrow> tasks_consistent (snd (simulate_tasks R ks s))"
  by (induction ks arbitrary: s)
     (auto simp: simulate_task_consistent intro!: consistent_then_do)

lemma simulate_day_consistent:
  assumes "tasks_consistent s"
  shows "tasks_consistent (snd (simulate_day R s))"
proof -
  have "\<And>d dl lg. tasks_consistent (s\<lparr>day := d, delayed_logs := dl, logs := lg\<rparr>)"
    using assms by (simp add: tasks_consistent_def)
  then show ?thesis
    unfolding simulate_day_def Let_def
    by (intro consistent_then_do simulate_tasks_consistent) simp_all
qed

lemma run_loop_consistent:
  "tasks_consistent s \<Longrightarrow> tasks_consistent (snd (run_loop R n s))"
  by (induction n arbitrary: s)
     (auto simp: simulate_day_consistent intro!: consistent_then_do)

section \<open>Simulator: dependency gating\<close>

lemma dependencies_completed_done:
  "dependencies_completed tks ds = Inr True \<Longrightarrow> deps_done tks ds"
  by (induction ds) (auto simp: deps_done_def split: option.splits if_splits)

lemma map_of_put_task_gen:
  "map_of (map (\<lambda>(k', t'). if k' = k then (k', t) else (k', t')) tks) d
     = (if d = k then map_option (\<lambda>_. t) (map_of tks k) else map_of tks d)"
  by (induction tks) auto

lemma map_of_put_task:
  "map_of (tasks s) k = Some t0 \<Longrightarrow>
   map_of (tasks (put_task k t s)) d = (if d = k then Some t else map_of (tasks s) d)"
  by (simp add: put_task_def map_of_put_task_gen)

lemma deps_done_put_task:
  assumes "deps_done (tasks s) ds" and "map_of (tasks s) k = Some t0" and "status t0 \<noteq> COMPLETED"
  shows "deps_done (tasks (put_task k t s)) ds"
  using assms
  by (auto simp: deps_done_def list_all_iff map_of_put_task[OF assms(2)] split: option.splits)

lemma gated_lookup:
  "gated s \<Longrightarrow> map_of (tasks s) k = Some t \<Longrightarrow> status t = IN_PROGRESS \<Longrightarrow>
   deps_done (tasks s) (dependencies t)"
  by (auto simp: gated_def dependency_gating_def list_all_iff dest!: map_of_SomeD)

lemma put_task_gated:
  assumes g: "gated_at k t0 s" and nc: "status t0 \<noteq> COMPLETED"
    and ip: "status t = IN_PROGRESS \<longrightarrow> deps_done (tasks s) (dependencies t)"
  shows "gated_at k t (put_task k t s)"
proof -
  from g have look: "map_of (tasks s) k = Some t0" and gs: "gated s"
    by (simp_all add: gated_at_def)
  have d: "distinct (map fst (tasks (put_task k t s)))"
    using gs by (simp add: gated_def)
  have m: "map_of (tasks (put_task k t s)) k = Some t"
    by (simp add: map_of_put_task[OF look])
  have "dependency_gating (put_task k t s)"
    unfolding dependency_gating_def list_all_iff
  proof (clarify)
    fix k2 u
    assume mem: "(k2, u) \<in> set (tasks (put_task k t s))" and inp: "status u = IN_PROGRESS"
    from mem have "(k2 = k \<and> u = t) \<or> (k2, u) \<in> set (tasks s)"
      by (auto simp: put_task_def split: if_splits)
    then have "deps_done (tasks s) (dependencies u)"
    proof
      assume "k2 = k \<and> u = t"
      with ip inp show ?thesis by simp
    next
      assume "(k2, u) \<in> set (tasks s)"
      with gs inp show ?thesis
        by (auto simp: gated_def dependency_gating_def list_all_iff)
    qed
    then show "deps_done (tasks (put_task k t s)) (dependencies u)"
      by (rule deps_done_put_task[OF _ look nc])
  qed
  with d m show ?thesis by (simp add: gated_at_def gated_def)
qed

lemma gated_at_simps [simp]:
  "gated_at k t (s\<lparr>rng := g\<rparr>) = gated_at k t s"
  "gated_at k t (s\<lparr>resources := rs\<rparr>) = gated_at k t s"
  "gated_at k t (snd (emit R d tid ty rsn s)) = gated_at k t s"
  by (simp_all add: gated_at_def gated_def dependency_gating_def)

lemma gated_simps [simp]:
  "gated (s\<lparr>rng := g\<rparr>) = gated s"
  "gated (s\<lparr>resources := rs\<rparr>) = gated s"
  "gated (snd (emit R d tid ty rsn s)) = gated s"
  by (simp_all add: gated_def dependency_gating_def)

lemma gated_atD: "gated_at k t s \<Longrightarrow> gated s"
  by (simp add: gated_at_def)

lemma gated_then_do:
  "gated (snd r) \<Longrightarrow> (\<And>s. gated s \<Longrightarrow> gated (snd (f s))) \<Longrightarrow> gated (snd (then_do r f))"
  by (rule then_do_post[where Q = gated and P = gated])

lemma gated_at_then_do:
  "gated_at k t (snd r) \<Longrightarrow> (\<And>s. gated_at k t s \<Longrightarrow> gated (snd (f s))) \<Longrightarrow>
   gated (snd (then_do r f))"
  by (rule then_do_post[where Q = "gated_at k t" and P = gated]) (auto dest: gated_atD)

text \<open>Storing a variant of the current task that keeps its status and dependencies.\<close>

lemma put_same_gated:
  assumes "gated_at k t s" and "status t \<noteq> COMPLETED"
    and "dependencies t' = dependencies t"
    and "status t' = IN_PROGRESS \<longrightarrow> status t = IN_PROGRESS"
  shows "gated_at k t' (put_task k t' s)"
proof (rule put_task_gated[OF assms(1,2)])
  show "status t' = IN_PROGRESS \<longrightarrow> deps_done (tasks s) (dependencies t')"
    using assms gated_lookup[of s k t] by (auto simp: gated_at_def)
qed

lemma completion_gated:
  "gated_at k t s \<Longrightarrow> status t \<noteq> COMPLETED \<Longrightarrow> gated (snd (completion R k t s))"
  by (auto simp: completion_def Let_def dest: gated_atD
      intro!: gated_atD[OF put_same_gated])

lemma gated_emit_put_then:
  assumes "gated_at k t' (put_task k t' s)"
    and "\<And>s'. gated_at k t' s' \<Longrightarrow> gated (snd (f s'))"
  shows "gated (snd (then_do (emit R d tid ty rsn (put_task k t' s)) f))"
  using assms by (intro gated_at_then_do[where k = k and t = t']) simp_all

lemma rework_step_gated:
  "gated_at k t s \<Longrightarrow> status t \<noteq> COMPLETED \<Longrightarrow> gated (snd (rework_step R k t s))"
  by (auto simp: rework_step_def Let_def completion_gated split: prod.splits
      intro!: gated_emit_put_then put_same_gated)

lemma progress_step_gated:
  "gated_at k t s \<Longrightarrow> status t \<noteq> COMPLETED \<Longrightarrow>
   gated (snd (progress_step R k t res pen rsn s))"
  by (auto simp: progress_step_def Let_def rework_step_gated split: prod.splits dest: gated_atD
      intro!: gated_emit_put_then put_same_gated)

lemma resource_allocation_gated:
  "gated_at k t s \<Longrightarrow> status t \<noteq> COMPLETED \<Longrightarrow> gated (snd (resource_allocation R k t s))"
  by (auto simp: resource_allocation_def Let_def progress_step_gated
      split: prod.splits option.splits dest: gated_atD
      intro!: gated_atD[OF put_same_gated])

lemma start_task_gated:
  fixes R :: "'g random_module" and s :: "'g sim"
  assumes g: "gated_at k t s" and nc: "status t \<noteq> COMPLETED"
    and dd: "deps_done (tasks s) (dependencies t)"
  shows "gated (snd (start_task R k t s))"
proof -
  have go: "\<And>t1 (s' :: 'g sim). gated_at k t1 s' \<Longrightarrow> status t1 \<noteq> COMPLETED \<Longrightarrow>
      deps_done (tasks s') (dependencies t1) \<Longrightarrow>
      gated (snd (resource_allocation R k (t1\<lparr>status := IN_PROGRESS\<rparr>)
                    (put_task k (t1\<lparr>status := IN_PROGRESS\<rparr>) s')))"
    by (rule resource_allocation_gated) (auto intro!: put_task_gated)
  show ?thesis
  proof (cases "status t = NOT_STARTED")
    case True
    define t1 where "t1 = (if actual_start t = None then t\<lparr>actual_start := Some (day s)\<rparr> else t)"
    have t1: "status t1 = NOT_STARTED" "dependencies t1 = dependencies t"
      using True by (auto simp: t1_def)
    have p: "gated_at k t1 (put_task k t1 s)"
      using t1 by (intro put_same_gated[OF g nc]) auto
    have dd1: "deps_done (tasks (put_task k t1 s)) (dependencies t1)"
      using deps_done_put_task[OF dd _ nc] g t1 by (simp add: gated_at_def)
    have "gated (snd (then_do (emit R (day s) (task_id t1) EV_START None (put_task k t1 s))
                 (\<lambda>s'. resource_allocation R k (t1\<lparr>status := IN_PROGRESS\<rparr>)
                          (put_task k (t1\<lparr>status := IN_PROGRESS\<rparr>) s'))))"
    proof (rule then_do_post[where Q = "\<lambda>s'. gated_at k t1 s' \<and> tasks s' = tasks (put_task k t1 s)"
          and P = gated])
      show "gated_at k t1 (snd (emit R (day s) (task_id t1) EV_START None (put_task k t1 s))) \<and>
            tasks (snd (emit R (day s) (task_id t1) EV_START None (put_task k t1 s)))
              = tasks (put_task k t1 s)"
        using p by simp
    next
      fix s' :: "'g sim" assume "gated_at k t1 s' \<and> tasks s' = tasks (put_task k t1 s)"
      then show "gated s'" by (simp add: gated_at_def)
    next
      fix s' :: "'g sim" assume a: "gated_at k t1 s' \<and> tasks s' = tasks (put_task k t1 s)"
      show "gated (snd (resource_allocation R k (t1\<lparr>status := IN_PROGRESS\<rparr>)
                          (put_task k (t1\<lparr>status := IN_PROGRESS\<rparr>) s')))"
        using a dd1 t1 by (intro go) auto
    qed
    then show ?thesis
      using True by (simp add: start_task_def Let_def t1_def)
  next
    case False
    show ?thesis
    proof (cases "status t = BLOCKED")
      case True
      then show ?thesis
        using go[OF g nc dd] by (simp add: start_task_def)
    next
      case b: False
      with False show ?thesis
        using resource_allocation_gated[OF g nc] by (simp add: start_task_def)
    qed
  qed
qed

lemma simulate_task_gated: "gated s \<Longrightarrow> gated (snd (simulate_task R k s))"
proof (cases "map_of (tasks s) k")
  case None
  then show "gated s \<Longrightarrow> ?thesis" by (simp add: simulate_task_def)
next
  case (Some t)
  assume a: "gated s"
  show ?thesis
  proof (cases "status t = COMPLETED")
    case True
    with Some a show ?thesis by (simp add: simulate_task_def)
  next
    case False
    have g: "\<And>g1. gated_at k t (s\<lparr>rng := g1\<rparr>)" using a Some by (simp add: gated_at_def)
    have b: "\<And>g1. gated (put_task k (t\<lparr>status := BLOCKED\<rparr>) (s\<lparr>rng := g1\<rparr>))"
      by (rule gated_atD[OF put_same_gated[OF g False]]) simp_all
    have c: "\<And>g1. dependencies_completed (tasks s) (dependencies t) = Inr True \<Longrightarrow>
        gated (snd (start_task R k t (s\<lparr>rng := g1\<rparr>)))"
      by (rule start_task_gated[OF g False]) (simp add: dependencies_completed_done)
    show ?thesis
      using a b c Some False
      by (auto simp: simulate_task_def split: prod.splits sum.splits bool.splits)
  qed
qed

lemma simulate_tasks_gated: "gated s \<Longrightarrow> gated (snd (simulate_tasks R ks s))"
  by (induction ks arbitrary: s) (auto simp: simulate_task_gated intro!: gated_then_do)

lemma simulate_day_gated:
  assumes "gated s"
  shows "gated (snd (simulate_day R s))"
proof -
  have "\<And>d dl lg. gated (s\<lparr>day := d, delayed_logs := dl, logs := lg\<rparr>)"
    using assms by (simp add: gated_def dependency_gating_def)
  then show ?thesis
    unfolding simulate_day_def Let_def
    by (intro gated_then_do simulate_tasks_gated) simp_all
qed

lemma run_loop_gated: "gated s \<Longrightarrow> gated (snd (run_loop R n s))"
  by (induction n arbitrary: s) (auto simp: simulate_day_gated intro!: gated_then_do)

lemma init_gated:
  assumes "\<forall>t \<in> set ts. status t = NOT_STARTED"
  shows "gated (ProjectSimulator R ts rs sd nc g)"
  using assms
  by (auto simp: gated_def dependency_gating_def ProjectSimulator_def list_all_iff tasks_dict_distinct
      dest!: tasks_dict_values)

lemma dependencies_completed_False:
  "\<forall>d \<in> set ds. map_of tks d \<noteq> None \<Longrightarrow>
   \<exists>d \<in> set ds. \<exists>u. map_of tks d = Some u \<and> status u \<noteq> COMPLETED \<Longrightarrow>
   dependencies_completed tks ds = Inr False"
  by (induction ds) (auto split: option.splits)

lemma deps_doneD:
  "deps_done tks ds \<Longrightarrow> d \<in> set ds \<Longrightarrow> \<exists>u. map_of tks d = Some u \<and> status u = COMPLETED"
  by (auto simp: deps_done_def list_all_iff split: option.splits)

section \<open>Data pipeline: lemmas\<close>

lemma normalize_ingest_rows:
  assumes "normalize_events (DataFrame (snd (ingest_simulation s))) = Inr (Columns rws)"
  shows "set rws = (\<lambda>e. \<lparr>er_day = ev_day e, er_task_id = ev_task_id e, er_event_type = ev_type e,
                       er_reason = ev_reason e, observed_day = ev_day e, is_delayed_log = False\<rparr>)
                   ` set (logs s)"
    and "length rws = length (logs s)"
  using assms
  by (auto simp: normalize_events_def DataFrame_def ingest_simulation_def image_iff
      split: if_splits)

lemma normalize_ingest_returns:
  "logs s \<noteq> [] \<Longrightarrow> \<exists>rws. normalize_events (DataFrame (snd (ingest_simulation s))) = Inr (Columns rws)"
  by (simp add: normalize_events_def DataFrame_def ingest_simulation_def)

lemma normalize_ingest_raises:
  "logs s = [] \<Longrightarrow> normalize_events (DataFrame (snd (ingest_simulation s))) = Inl (KeyError ''observed_day'')"
  by (simp add: normalize_events_def DataFrame_def ingest_simulation_def)

lemma log_event_delayed:
  assumes "chance R (log_drop_prob (noise s)) (rng s) = (False, g1)"
    and "chance R (3 / 10) g1 = (True, g2)"
    and "random_delay R (fst (log_delay_range (noise s))) (snd (log_delay_range (noise s))) g2 = Inr (d, g3)"
    and "0 \<le> ev_day event + d" and "ev_task_id event \<noteq> []"
  shows "log_event R event s =
           (None, s\<lparr>delayed_logs := delayed_logs s @ [event\<lparr>ev_day := ev_day event + d\<rparr>], rng := g3\<rparr>)"
  using assms by (simp add: log_event_def EventLog_def)

lemma block_count_skill_mismatch:
  assumes "\<forall>r \<in> set rws. er_event_type r = EV_BLOCKED \<longrightarrow> er_reason r \<noteq> Some ''skill_mismatch''"
  shows "block_count (filter (\<lambda>r. er_event_type r = EV_BLOCKED) rws) tid ''skill_mismatch'' = 0"
  using assms by (auto simp: block_count_def filter_empty_conv)

section \<open>Evaluation of the two small projects\<close>

text \<open>
  A numeral bound of the run loop unfolds one day at a time; with the definitions of the
  simulator as rewrite rules a concrete run is computed by the simplifier.
\<close>

lemma run_loop_numeral:
  "run_loop R (numeral k) s =
     then_do (simulate_day R s)
       (\<lambda>s'. if all_completed s' then (None, s') else run_loop R (pred_numeral k) s')"
  by (simp add: numeral_eq_Suc)

lemma run_loop_1:
  "run_loop R 1 s =
     then_do (simulate_day R s) (\<lambda>s'. if all_completed s' then (None, s') else (None, s'))"
  by (simp cong: if_cong)

lemmas sim_eval = test_random_def new_task_def new_resource_def delay_only_noise_def
  one_task_project_def two_task_project_def ProjectSimulator_def tasks_dict_def random_seed_def
  run_def simulate_day_def simulate_task_def start_task_def resource_allocation_def
  progress_step_def rework_step_def completion_def emit_def log_event_def EventLog_def
  chance_def uniform_def randint_def random_delay_def regress_progress_def
  then_do_def put_task_def release_resources_def all_completed_def Let_def
  run_loop_numeral

lemma run_one_task_project:
  "run test_random 4 one_task_project =
     (None,
      \<lparr>tasks = [(''T1'', \<lparr>task_id = ''T1'', planned_duration = 3, complexity = 1,
                  priority = ''high'', required_skill = ''dev'', dependencies = [],
                  actual_start = Some 1, actual_end = Some 4, progress = 7 / 5,
                  status = COMPLETED\<rparr>)],
       resources = [new_resource ''R1'' ''qa'' 8],
       logs = [\<lparr>ev_day = 1, ev_task_id = ''T1'', ev_type = EV_START, ev_reason = None\<rparr>,
               \<lparr>ev_day = 1, ev_task_id = ''T1'', ev_type = EV_PROGRESS, ev_reason = Some ''skill_mismatch''\<rparr>,
               \<lparr>ev_day = 3, ev_task_id = ''T1'', ev_type = EV_PROGRESS, ev_reason = Some ''skill_mismatch''\<rparr>,
               \<lparr>ev_day = 4, ev_task_id = ''T1'', ev_type = EV_PROGRESS, ev_reason = Some ''skill_mismatch''\<rparr>],
       delayed_logs = [\<lparr>ev_day = 7, ev_task_id = ''T1'', ev_type = EV_PROGRESS, ev_reason = Some ''skill_mismatch''\<rparr>,
                       \<lparr>ev_day = 5, ev_task_id = ''T1'', ev_type = EV_COMPLETE, ev_reason = None\<rparr>],
       day = 4, noise = delay_only_noise, rng = 31\<rparr>)"
  by (simp add: sim_eval)

lemma run_two_task_project:
  "run test_random 2 two_task_project =
     (None,
      \<lparr>tasks = [(''T1'', \<lparr>task_id = ''T1'', planned_duration = 3, complexity = 1,
                  priority = ''high'', required_skill = ''dev'', dependencies = [],
                  actual_start = Some 1, actual_end = None, progress = 1 / 2,
                  status = IN_PROGRESS\<rparr>),
                (''T2'', \<lparr>task_id = ''T2'', planned_duration = 2, complexity = 1,
                  priority = ''medium'', required_skill = ''dev'', dependencies = [''T1''],
                  actual_start = None, actual_end = None, progress = 0,
                  status = BLOCKED\<rparr>)],
       resources = [new_resource ''R1'' ''qa'' 8],
       logs = [\<lparr>ev_day = 1, ev_task_id = ''T1'', ev_type = EV_START, ev_reason = None\<rparr>,
               \<lparr>ev_day = 1, ev_task_id = ''T1'', ev_type = EV_PROGRESS, ev_reason = Some ''skill_mismatch''\<rparr>,
               \<lparr>ev_day = 1, ev_task_id = ''T2'', ev_type = EV_BLOCKED, ev_reason = Some ''dependencies''\<rparr>,
               \<lparr>ev_day = 2, ev_task_id = ''T1'', ev_type = EV_PROGRESS, ev_reason = Some ''skill_mismatch''\<rparr>,
               \<lparr>ev_day = 2, ev_task_id = ''T2'', ev_type = EV_BLOCKED, ev_reason = Some ''dependencies''\<rparr>],
       delayed_logs = [],
       day = 2, noise = delay_only_noise, rng = 20\<rparr>)"
  by (simp add: sim_eval)

section \<open>Simulator and pipeline: properties of a run\<close>

text \<open>
  When each simulator is run right after its own construction, the second run repeats the
  first: the constructor has reseeded the generator.
\<close>

lemma construct_run_twice_same:
  "construct_run_twice R ts rs sd nc max_days g0 =
     (let ra = run R max_days (ProjectSimulator R ts rs sd nc g0)
      in (ra, if fst ra \<noteq> None then None else Some ra))"
  by (simp add: construct_run_twice_def Let_def ProjectSimulator_def random_seed_def)

text \<open>
  C1 (the code departs from it).  Two simulators are constructed from equal inputs (one
  task, one matching resource, seed 42, a noise configuration that drops every log entry
  and has no other noise) and then run for one day each, one after the other.  The
  generator is seeded by the constructors only, so the second run continues with the
  numbers that follow those drawn by the first: the single task ends the first run with
  progress 3/40 and the second run with progress 1/8.  Run right after its construction,
  the second simulator repeats the first.
\<close>

theorem two_simulators_diverge_counterexample:
  "task_states (snd (fst (construct_twice_run_twice test_random
       [new_task ''T1'' 3 1 ''high'' ''dev'' []] [new_resource ''R1'' ''dev'' 1] 42
       (Some drop_all_noise) 1 0)))
     = [(''T1'', Some 1, None, 3 / 40, IN_PROGRESS)]
   \<and> map_option (\<lambda>rb. (fst rb, task_states (snd rb), logs (snd rb)))
       (snd (construct_twice_run_twice test_random
          [new_task ''T1'' 3 1 ''high'' ''dev'' []] [new_resource ''R1'' ''dev'' 1] 42
          (Some drop_all_noise) 1 0))
     = Some (None, [(''T1'', Some 1, None, 1 / 8, IN_PROGRESS)], [])
   \<and> map_option (\<lambda>rb. (fst rb, task_states (snd rb), logs (snd rb)))
       (snd (construct_run_twice test_random
          [new_task ''T1'' 3 1 ''high'' ''dev'' []] [new_resource ''R1'' ''dev'' 1] 42
          (Some drop_all_noise) 1 0))
     = Some (None, [(''T1'', Some 1, None, 3 / 40, IN_PROGRESS)], [])"
  by (simp add: construct_twice_run_twice_def construct_run_twice_def object_of_def
        in_process_def drop_all_noise_def task_states_def sim_eval run_loop_1)

text \<open>
  C2.  From tasks that are all \<open>NOT_STARTED\<close>, in the state a run ends in (after any
  number of days, also when the run stops with an exception) every task that is in progress
  has all its dependencies known and completed.  In the step of one task of a day, when the
  task is not completed, the external block does not strike, every dependency is a known
  task and one of them is not completed, the step is exactly: set the status to blocked and
  log a blocked event with reason dependencies; the start and resume transitions are not
  reached.
\<close>

theorem dependency_gating_run:
  fixes R :: "'g random_module" and s :: "'g sim"
  assumes "\<forall>t \<in> set ts. status t = NOT_STARTED"
  shows "(\<forall>(k, t) \<in> set (tasks (snd (run R max_days (ProjectSimulator R ts rs sd nc g)))).
            status t = IN_PROGRESS \<longrightarrow>
            (\<forall>d \<in> set (dependencies t).
               \<exists>u. map_of (tasks (snd (run R max_days (ProjectSimulator R ts rs sd nc g)))) d = Some u
                  \<and> status u = COMPLETED))
       \<and> (map_of (tasks s) k = Some t \<and> status t \<noteq> COMPLETED
            \<and> chance R (external_block_prob (noise s)) (rng s) = (False, g1)
            \<and> (\<forall>d \<in> set (dependencies t). map_of (tasks s) d \<noteq> None)
            \<and> (\<exists>d \<in> set (dependencies t). \<exists>u. map_of (tasks s) d = Some u \<and> status u \<noteq> COMPLETED)
          \<longrightarrow> simulate_task R k s
                = emit R (day s) (task_id t) EV_BLOCKED (Some ''dependencies'')
                    (put_task k (t\<lparr>status := BLOCKED\<rparr>) (s\<lparr>rng := g1\<rparr>))
              \<and> map_of (tasks (snd (simulate_task R k s))) k = Some (t\<lparr>status := BLOCKED\<rparr>))"
proof -
  let ?s = "snd (run R max_days (ProjectSimulator R ts rs sd nc g))"
  have "gated ?s"
    using assms by (simp add: run_def run_loop_gated init_gated)
  then have "dependency_gating ?s"
    by (simp add: gated_def)
  then have a: "\<forall>(k, t) \<in> set (tasks ?s). status t = IN_PROGRESS \<longrightarrow>
            (\<forall>d \<in> set (dependencies t). \<exists>u. map_of (tasks ?s) d = Some u \<and> status u = COMPLETED)"
    by (auto simp: dependency_gating_def list_all_iff intro: deps_doneD)
  have b: "simulate_task R k s
                = emit R (day s) (task_id t) EV_BLOCKED (Some ''dependencies'')
                    (put_task k (t\<lparr>status := BLOCKED\<rparr>) (s\<lparr>rng := g1\<rparr>))
              \<and> map_of (tasks (snd (simulate_task R k s))) k = Some (t\<lparr>status := BLOCKED\<rparr>)"
    if h: "map_of (tasks s) k = Some t" "status t \<noteq> COMPLETED"
      "chance R (external_block_prob (noise s)) (rng s) = (False, g1)"
      "\<forall>d \<in> set (dependencies t). map_of (tasks s) d \<noteq> None"
      "\<exists>d \<in> set (dependencies t). \<exists>u. map_of (tasks s) d = Some u \<and> status u \<noteq> COMPLETED"
  proof -
    have f: "dependencies_completed (tasks s) (dependencies t) = Inr False"
      using h(4,5) by (rule dependencies_completed_False)
    have e: "simulate_task R k s
                = emit R (day s) (task_id t) EV_BLOCKED (Some ''dependencies'')
                    (put_task k (t\<lparr>status := BLOCKED\<rparr>) (s\<lparr>rng := g1\<rparr>))"
      using h(1,2,3) f by (simp add: simulate_task_def)
    have m: "map_of (tasks (s\<lparr>rng := g1\<rparr>)) k = Some t" using h(1) by simp
    show ?thesis
      unfolding e using map_of_put_task[OF m, of "t\<lparr>status := BLOCKED\<rparr>" k] by simp
  qed
  from a b show ?thesis by blast
qed

text \<open>
  After two days of the two-task project the first task is in progress and the second,
  which depends on it, is blocked; the step of the second task in the initial state blocks it
  with reason dependencies.
\<close>

theorem dependency_gating_run_witness:
  "status (new_task ''T1'' 3 1 ''high'' ''dev'' []) = NOT_STARTED
   \<and> status (new_task ''T2'' 2 1 ''medium'' ''dev'' [''T1'']) = NOT_STARTED
   \<and> task_states (snd (run test_random 2 two_task_project))
       = [(''T1'', Some 1, None, 1 / 2, IN_PROGRESS), (''T2'', None, None, 0, BLOCKED)]
   \<and> map_of (tasks two_task_project) ''T2'' = Some (new_task ''T2'' 2 1 ''medium'' ''dev'' [''T1''])
   \<and> map_of (tasks two_task_project) ''T1'' = Some (new_task ''T1'' 3 1 ''high'' ''dev'' [])
   \<and> chance test_random (external_block_prob (noise two_task_project)) (rng two_task_project)
       = (False, 1)
   \<and> task_states (snd (simulate_task test_random ''T2'' two_task_project))
       = [(''T1'', None, None, 0, NOT_STARTED), (''T2'', None, None, 0, BLOCKED)]
   \<and> logs (snd (simulate_task test_random ''T2'' two_task_project))
       = [\<lparr>ev_day = 0, ev_task_id = ''T2'', ev_type = EV_BLOCKED, ev_reason = Some ''dependencies''\<rparr>]"
proof -
  have h: "\<forall>t \<in> set [new_task ''T1'' 3 1 ''high'' ''dev'' [],
                       new_task ''T2'' 2 1 ''medium'' ''dev'' [''T1'']]. status t = NOT_STARTED"
    by (simp add: new_task_def)
  show ?thesis
    using dependency_gating_run [OF h, where R = test_random and max_days = 2
        and rs = "[new_resource ''R1'' ''qa'' 8]" and sd = 0 and nc = "Some delay_only_noise"
        and g = 0 and s = two_task_project and k = "''T2''"
        and t = "new_task ''T2'' 2 1 ''medium'' ''dev'' [''T1'']" and ?g1.0 = 1,
        folded two_task_project_def]
    by (simp add: run_two_task_project task_states_def sim_eval)
qed

text \<open>
  C3.  From tasks with status \<open>NOT_STARTED\<close> and no end day, every task in the state a
  run ends in is completed if and only if its end day is set and its progress is at least 1.
\<close>

theorem completion_consistency_run:
  assumes "\<forall>t \<in> set ts. status t = NOT_STARTED \<and> actual_end t = None"
  shows "\<forall>(k, t) \<in> set (tasks (snd (run R max_days (ProjectSimulator R ts rs sd nc g)))).
           (status t = COMPLETED) = (actual_end t \<noteq> None \<and> 1 \<le> progress t)"
proof -
  have "tasks_consistent (ProjectSimulator R ts rs sd nc g)"
    using assms
    by (auto simp: tasks_consistent_def ProjectSimulator_def list_all_iff task_consistent_def
        dest!: tasks_dict_values)
  then have "tasks_consistent (snd (run R max_days (ProjectSimulator R ts rs sd nc g)))"
    by (simp add: run_def run_loop_consistent)
  then show ?thesis
    by (auto simp: tasks_consistent_def list_all_iff task_consistent_def split: if_splits)
qed

text \<open>
  The one-task project completes its task on day 4 with progress 7/5.
\<close>

theorem completion_consistency_run_witness:
  "status (new_task ''T1'' 3 1 ''high'' ''dev'' []) = NOT_STARTED
   \<and> actual_end (new_task ''T1'' 3 1 ''high'' ''dev'' []) = None
   \<and> task_states (snd (run test_random 4 one_task_project))
       = [(''T1'', Some 1, Some 4, 7 / 5, COMPLETED)]"
proof -
  have h: "\<forall>t \<in> set [new_task ''T1'' 3 1 ''high'' ''dev'' []].
             status t = NOT_STARTED \<and> actual_end t = None"
    by (simp add: new_task_def)
  show ?thesis
    using completion_consistency_run [OF h, of test_random 4 "[new_resource ''R1'' ''qa'' 8]" 0
        "Some delay_only_noise" 0, folded one_task_project_def]
    by (simp add: run_one_task_project task_states_def new_task_def)
qed

text \<open>
  C9.  For every simulator state, in particular the state a run ends in: if the log is not
  empty, \<open>ingest_simulation\<close> followed by \<open>normalize_events\<close> returns one row per log
  entry; every row it returns has \<open>observed_day\<close> equal to \<open>day\<close> and \<open>is_delayed_log\<close>
  false.  When \<open>log_event\<close> delays an event by \<open>d\<close> days, the entry it queues carries the
  day of the event plus \<open>d\<close>, and the day of the event is kept nowhere.
\<close>

theorem ingest_normalize_not_delayed:
  fixes R :: "'g random_module" and s :: "'g sim"
  shows "(logs s \<noteq> [] \<longrightarrow>
            (\<exists>rws. normalize_events (DataFrame (snd (ingest_simulation s))) = Inr (Columns rws)
                  \<and> length rws = length (logs s)))
       \<and> (normalize_events (DataFrame (snd (ingest_simulation s))) = Inr (Columns rws) \<longrightarrow>
            (\<forall>r \<in> set rws. observed_day r = er_day r \<and> \<not> is_delayed_log r))
       \<and> (chance R (log_drop_prob (noise s)) (rng s) = (False, g1)
            \<and> chance R (3 / 10) g1 = (True, g2)
            \<and> random_delay R (fst (log_delay_range (noise s))) (snd (log_delay_range (noise s))) g2
                = Inr (d, g3)
            \<and> 0 \<le> ev_day event + d \<and> ev_task_id event \<noteq> []
          \<longrightarrow> log_event R event s
                = (None, s\<lparr>delayed_logs := delayed_logs s @ [event\<lparr>ev_day := ev_day event + d\<rparr>],
                            rng := g3\<rparr>))"
proof -
  have a: "logs s \<noteq> [] \<longrightarrow>
            (\<exists>rws. normalize_events (DataFrame (snd (ingest_simulation s))) = Inr (Columns rws)
                  \<and> length rws = length (logs s))"
    using normalize_ingest_returns[of s] normalize_ingest_rows(2)[of s] by blast
  have b: "normalize_events (DataFrame (snd (ingest_simulation s))) = Inr (Columns rws) \<longrightarrow>
            (\<forall>r \<in> set rws. observed_day r = er_day r \<and> \<not> is_delayed_log r)"
    using normalize_ingest_rows(1)[of s rws] by auto
  have c: "chance R (log_drop_prob (noise s)) (rng s) = (False, g1)
            \<and> chance R (3 / 10) g1 = (True, g2)
            \<and> random_delay R (fst (log_delay_range (noise s))) (snd (log_delay_range (noise s))) g2
                = Inr (d, g3)
            \<and> 0 \<le> ev_day event + d \<and> ev_task_id event \<noteq> []
          \<longrightarrow> log_event R event s
                = (None, s\<lparr>delayed_logs := delayed_logs s @ [event\<lparr>ev_day := ev_day event + d\<rparr>],
                            rng := g3\<rparr>)"
    using log_event_delayed[of R s g1 g2 d g3 event] by blast
  from a b c show ?thesis by blast
qed

text \<open>
  The log of the one-task project after four days holds a progress event of day 2 under
  day 4; all four rows have equal day columns and a false flag.  A progress event of day 4
  logged in that state is queued under day 5.
\<close>

theorem ingest_normalize_not_delayed_witness:
  "logs (snd (run test_random 4 one_task_project)) \<noteq> []
   \<and> normalize_events (DataFrame (snd (ingest_simulation (snd (run test_random 4 one_task_project)))))
       = Inr (Columns
           [\<lparr>er_day = 1, er_task_id = ''T1'', er_event_type = EV_START, er_reason = None,
              observed_day = 1, is_delayed_log = False\<rparr>,
            \<lparr>er_day = 1, er_task_id = ''T1'', er_event_type = EV_PROGRESS,
              er_reason = Some ''skill_mismatch'', observed_day = 1, is_delayed_log = False\<rparr>,
            \<lparr>er_day = 3, er_task_id = ''T1'', er_event_type = EV_PROGRESS,
              er_reason = Some ''skill_mismatch'', observed_day = 3, is_delayed_log = False\<rparr>,
            \<lparr>er_day = 4, er_task_id = ''T1'', er_event_type = EV_PROGRESS,
              er_reason = Some ''skill_mismatch'', observed_day = 4, is_delayed_log = False\<rparr>])
   \<and> chance test_random (log_drop_prob (noise (snd (run test_random 4 one_task_project))))
         (rng (snd (run test_random 4 one_task_project))) = (False, 32)
   \<and> chance test_random (3 / 10) 32 = (True, 33)
   \<and> random_delay test_random 1 3 33 = Inr (1, 34)
   \<and> delayed_logs (snd (log_event test_random
         \<lparr>ev_day = 4, ev_task_id = ''T1'', ev_type = EV_PROGRESS, ev_reason = None\<rparr>
         (snd (run test_random 4 one_task_project))))
       = [\<lparr>ev_day = 7, ev_task_id = ''T1'', ev_type = EV_PROGRESS, ev_reason = Some ''skill_mismatch''\<rparr>,
          \<lparr>ev_day = 5, ev_task_id = ''T1'', ev_type = EV_COMPLETE, ev_reason = None\<rparr>,
          \<lparr>ev_day = 5, ev_task_id = ''T1'', ev_type = EV_PROGRESS, ev_reason = None\<rparr>]
   \<and> logs (snd (log_event test_random
         \<lparr>ev_day = 4, ev_task_id = ''T1'', ev_type = EV_PROGRESS, ev_reason = None\<rparr>
         (snd (run test_random 4 one_task_project))))
       = logs (snd (run test_random 4 one_task_project))"
  using ingest_normalize_not_delayed [where s = "snd (run test_random 4 one_task_project)"
      and R = test_random and ?g1.0 = 32 and ?g2.0 = 33 and d = 1 and ?g3.0 = 34
      and event = "\<lparr>ev_day = 4, ev_task_id = ''T1'', ev_type = EV_PROGRESS, ev_reason = None\<rparr>"
      and rws = "[\<lparr>er_day = 1, er_task_id = ''T1'', er_event_type = EV_START, er_reason = None,
              observed_day = 1, is_delayed_log = False\<rparr>,
            \<lparr>er_day = 1, er_task_id = ''T1'', er_event_type = EV_PROGRESS,
              er_reason = Some ''skill_mismatch'', observed_day = 1, is_delayed_log = False\<rparr>,
            \<lparr>er_day = 3, er_task_id = ''T1'', er_event_type = EV_PROGRESS,
              er_reason = Some ''skill_mismatch'', observed_day = 3, is_delayed_log = False\<rparr>,
            \<lparr>er_day = 4, er_task_id = ''T1'', er_event_type = EV_PROGRESS,
              er_reason = Some ''skill_mismatch'', observed_day = 4, is_delayed_log = False\<rparr>]"]
  unfolding run_one_task_project
  by (simp add: normalize_events_def DataFrame_def ingest_simulation_def
        delay_only_noise_def test_random_def chance_def random_delay_def randint_def
        log_event_def EventLog_def)

text \<open>
  C10.  In the state a run ends in, no event that the run recorded, in the log or in the
  queue of delayed entries, is a blocked event with reason skill_mismatch: that reason is
  attached to progress events only.  Whenever the pipeline returns the normalized events of
  the run, \<open>compute_block_features\<close> returns, and the skill_mismatch count of every row is 0.
\<close>

theorem no_blocked_skill_mismatch:
  fixes R :: "'g random_module" and max_days :: int and ts :: "task list"
    and rs :: "resource list" and sd :: int and nc :: "noise_config option" and g :: 'g
  defines "s \<equiv> snd (run R max_days (ProjectSimulator R ts rs sd nc g))"
  shows "(\<forall>e \<in> set (logs s) \<union> set (delayed_logs s).
            ev_type e = EV_BLOCKED \<longrightarrow> ev_reason e \<noteq> Some ''skill_mismatch'')
       \<and> (\<forall>e \<in> set (logs s) \<union> set (delayed_logs s).
            ev_reason e = Some ''skill_mismatch'' \<longrightarrow> ev_type e = EV_PROGRESS)
       \<and> (normalize_events (DataFrame (snd (ingest_simulation s))) = Inr (Columns rws) \<longrightarrow>
            (\<exists>feats. compute_block_features (Columns rws) = Inr feats
                    \<and> (\<forall>b \<in> set feats. bf_skill_mismatch b = 0)))"
proof -
  have "log_ok s"
    unfolding s_def by (rule run_log_ok)
  then have ok: "\<forall>e \<in> set (logs s) \<union> set (delayed_logs s).
            ev_reason e = Some ''skill_mismatch'' \<longrightarrow> ev_type e = EV_PROGRESS"
    by (auto simp: log_ok_def ev_ok_def list_all_iff)
  then have nb: "\<forall>e \<in> set (logs s) \<union> set (delayed_logs s).
            ev_type e = EV_BLOCKED \<longrightarrow> ev_reason e \<noteq> Some ''skill_mismatch''"
    by auto
  have feat: "\<exists>feats. compute_block_features (Columns rws) = Inr feats
                    \<and> (\<forall>b \<in> set feats. bf_skill_mismatch b = 0)"
    if n: "normalize_events (DataFrame (snd (ingest_simulation s))) = Inr (Columns rws)"
  proof -
    have "\<forall>r \<in> set rws. er_event_type r = EV_BLOCKED \<longrightarrow> er_reason r \<noteq> Some ''skill_mismatch''"
      using nb normalize_ingest_rows(1)[OF n] by auto
    then have "\<And>tid. block_count (filter (\<lambda>r. er_event_type r = EV_BLOCKED) rws) tid ''skill_mismatch'' = 0"
      by (rule block_count_skill_mismatch)
    then show ?thesis
      by (simp add: compute_block_features_def Let_def)
  qed
  from ok nb feat show ?thesis by blast
qed

text \<open>
  Two days of the two-task project: the skill mismatch shows on the progress events of the
  first task, the only block row is that of the second task, with two dependency blocks and
  no skill mismatch.
\<close>

theorem no_blocked_skill_mismatch_witness:
  "normalize_events (DataFrame (snd (ingest_simulation (snd (run test_random 2 two_task_project)))))
       = Inr (Columns
           [\<lparr>er_day = 1, er_task_id = ''T1'', er_event_type = EV_START, er_reason = None,
              observed_day = 1, is_delayed_log = False\<rparr>,
            \<lparr>er_day = 1, er_task_id = ''T1'', er_event_type = EV_PROGRESS,
              er_reason = Some ''skill_mismatch'', observed_day = 1, is_delayed_log = False\<rparr>,
            \<lparr>er_day = 1, er_task_id = ''T2'', er_event_type = EV_BLOCKED,
              er_reason = Some ''dependencies'', observed_day = 1, is_delayed_log = False\<rparr>,
            \<lparr>er_day = 2, er_task_id = ''T1'', er_event_type = EV_PROGRESS,
              er_reason = Some ''skill_mismatch'', observed_day = 2, is_delayed_log = False\<rparr>,
            \<lparr>er_day = 2, er_task_id = ''T2'', er_event_type = EV_BLOCKED,
              er_reason = Some ''dependencies'', observed_day = 2, is_delayed_log = False\<rparr>])
   \<and> compute_block_features (Columns
           [\<lparr>er_day = 1, er_task_id = ''T1'', er_event_type = EV_START, er_reason = None,
              observed_day = 1, is_delayed_log = False\<rparr>,
            \<lparr>er_day = 1, er_task_id = ''T1'', er_event_type = EV_PROGRESS,
              er_reason = Some ''skill_mismatch'', observed_day = 1, is_delayed_log = False\<rparr>,
            \<lparr>er_day = 1, er_task_id = ''T2'', er_event_type = EV_BLOCKED,
              er_reason = Some ''dependencies'', observed_day = 1, is_delayed_log = False\<rparr>,
            \<lparr>er_day = 2, er_task_id = ''T1'', er_event_type = EV_PROGRESS,
              er_reason = Some ''skill_mismatch'', observed_day = 2, is_delayed_log = False\<rparr>,
            \<lparr>er_day = 2, er_task_id = ''T2'', er_event_type = EV_BLOCKED,
              er_reason = Some ''dependencies'', observed_day = 2, is_delayed_log = False\<rparr>])
       = Inr [\<lparr>bf_task_id = ''T2'', bf_dependencies = 2, bf_no_resource_available = 0,
                bf_skill_mismatch = 0, bf_external_block = 0, bf_random_disruption = 0,
                bf_total_blocked_events = 2\<rparr>]"
  using no_blocked_skill_mismatch [where R = test_random and max_days = 2
      and ts = "[new_task ''T1'' 3 1 ''high'' ''dev'' [], new_task ''T2'' 2 1 ''medium'' ''dev'' [''T1'']]"
      and rs = "[new_resource ''R1'' ''qa'' 8]" and sd = 0 and nc = "Some delay_only_noise"
      and g = 0
      and rws = "[\<lparr>er_day = 1, er_task_id = ''T1'', er_event_type = EV_START, er_reason = None,
              observed_day = 1, is_delayed_log = False\<rparr>,
            \<lparr>er_day = 1, er_task_id = ''T1'', er_event_type = EV_PROGRESS,
              er_reason = Some ''skill_mismatch'', observed_day = 1, is_delayed_log = False\<rparr>,
            \<lparr>er_day = 1, er_task_id = ''T2'', er_event_type = EV_BLOCKED,
              er_reason = Some ''dependencies'', observed_day = 1, is_delayed_log = False\<rparr>,
            \<lparr>er_day = 2, er_task_id = ''T1'', er_event_type = EV_PROGRESS,
              er_reason = Some ''skill_mismatch'', observed_day = 2, is_delayed_log = False\<rparr>,
            \<lparr>er_day = 2, er_task_id = ''T2'', er_event_type = EV_BLOCKED,
              er_reason = Some ''dependencies'', observed_day = 2, is_delayed_log = False\<rparr>]",
      folded two_task_project_def]
  by (simp add: run_two_task_project normalize_events_def DataFrame_def ingest_simulation_def
        compute_block_features_def block_count_def Let_def)

end
